theory Spec2Isabelle
  imports Complex_Main
begin

section \<open>Conventions of the embedding\<close>

text \<open>
  The Python sources under \<^verbatim>\<open>backend/\<close> are embedded shallowly.

  \<^item> A Python \<^verbatim>\<open>float\<close> is a \<^typ>\<open>real\<close>, and there is neither an infinity nor a
    NaN. Comparisons are exact. Arithmetic is exact as well, except in the walk over the
    order book, whose property depends on the rounding: there every operation rounds its
    result to a binary64 number (see below). Where the source starts a search with
    \<^verbatim>\<open>float("inf")\<close> the model uses \<^typ>\<open>real option\<close> with \<open>None\<close> for infinity.
  \<^item> A Python \<^verbatim>\<open>int\<close> is an \<^typ>\<open>int\<close>.
  \<^item> An object is a record of its attributes; a method takes the object and returns the
    updated object next to its result. A private attribute \<^verbatim>\<open>_x\<close> is the field \<open>x\<close>,
    with a short class prefix where the plain name is taken.
  \<^item> \<^verbatim>\<open>time.time()\<close> and \<^verbatim>\<open>datetime.utcnow()\<close> are an argument \<open>now\<close> of the
    operation that reads the clock; one operation reads one instant.
  \<^item> Calls of the logger are left out: they change no state and return nothing.
  \<^item> A raised exception is the \<open>Inl\<close> branch of a sum.
\<close>

datatype py_error = TypeError | ZeroDivisionError | OSError

text \<open>\<^verbatim>\<open>d.get(key, default)\<close> on a dictionary.\<close>

definition py_get :: "('k \<rightharpoonup> 'v) \<Rightarrow> 'k \<Rightarrow> 'v \<Rightarrow> 'v" where
  "py_get d key dflt = (case d key of None \<Rightarrow> dflt | Some v \<Rightarrow> v)"

subsection \<open>Rounding\<close>

text \<open>Rounding to the nearest integer, a tie going to the even one.\<close>

definition round_half_even :: "real \<Rightarrow> int" where
  "round_half_even x =
     (let f = \<lfloor>x\<rfloor>; d = x - real_of_int f
      in if d < 1 / 2 then f else if d > 1 / 2 then f + 1 else if even f then f else f + 1)"

text \<open>
  The result of a binary64 operation: the exact result \<open>x\<close> rounded to the nearest
  number with a significand of 53 bits, a tie going to the even significand. With
  \<open>2 ^ e \<le> \<bar>x\<bar> < 2 ^ (e + 1)\<close> these numbers are the multiples of \<open>2 ^ (e - 52)\<close>.
  The range of the exponent is not bounded: overflow to infinity and gradual underflow
  are not modelled.
\<close>

definition f64_round :: "real \<Rightarrow> real" where
  "f64_round x =
     (if x = 0 then 0
      else (let q = 2 powi (\<lfloor>log 2 \<bar>x\<bar>\<rfloor> - 52)
            in real_of_int (round_half_even (x / q)) * q))"

subsection \<open>Text built by f-strings\<close>

text \<open>
  The sources build their reasons and messages with f-strings such as
  \<^verbatim>\<open>f"Trade ${trade_cost_usd:.2f} > max ${limit:.2f}"\<close>. The digits a float prints as
  depend on its binary representation, which a \<^typ>\<open>real\<close> does not have. A
  message is therefore kept as the sequence of its pieces: the literal text, and each
  interpolated value together with its format specification. Interpolating a string into
  an f-string splices its pieces.
\<close>

datatype fpart =
    Lit string          \<comment> \<open>literal text\<close>
  | IntD int            \<comment> \<open>\<^verbatim>\<open>{n}\<close> for an int\<close>
  | IntPad nat int      \<comment> \<open>\<^verbatim>\<open>{n:06d}\<close>, zero padded to the width\<close>
  | Fix nat real        \<comment> \<open>\<^verbatim>\<open>{x:.2f}\<close>, fixed point with that many decimals\<close>
  | Pct nat real        \<comment> \<open>\<^verbatim>\<open>{x:.0%}\<close>, a percentage with that many decimals\<close>
  | FloatD real         \<comment> \<open>\<^verbatim>\<open>{x}\<close> for a float\<close>
  | Iso real            \<comment> \<open>\<^verbatim>\<open>datetime.isoformat()\<close> of an instant\<close>

type_synonym message = "fpart list"

section \<open>Configuration: \<^verbatim>\<open>config/settings.py\<close>\<close>

text \<open>
  The fields of \<^verbatim>\<open>Settings\<close> that the modelled code reads. \<open>KILL_SWITCH_TOKEN\<close> is an
  option because the validator reads it with \<^verbatim>\<open>getattr(s, "KILL_SWITCH_TOKEN", "")\<close>:
  \<open>None\<close> is a settings object without the attribute.
\<close>

record Settings =
  KILL_SWITCH_TOKEN :: "string option"
  DRY_RUN :: bool
  MAX_SINGLE_TRADE_USD :: real
  MAX_TOTAL_EXPOSURE_USD :: real
  MAX_DAILY_LOSS_USD :: real
  MAX_TRADES_PER_HOUR :: int
  MIN_NET_MARGIN :: real
  KALSHI_FEE_PER_CONTRACT :: real
  POLYMARKET_GAS_COST :: real
  SLIPPAGE_BUFFER :: real

definition default_settings :: Settings where
  "default_settings =
     \<lparr> KILL_SWITCH_TOKEN = Some '''',
       DRY_RUN = True,
       MAX_SINGLE_TRADE_USD = 50,
       MAX_TOTAL_EXPOSURE_USD = 500,
       MAX_DAILY_LOSS_USD = 100,
       MAX_TRADES_PER_HOUR = 20,
       MIN_NET_MARGIN = 2 / 100,
       KALSHI_FEE_PER_CONTRACT = 3 / 100,
       POLYMARKET_GAS_COST = 2 / 1000,
       SLIPPAGE_BUFFER = 5 / 1000 \<rparr>"

section \<open>Fee engine: \<^verbatim>\<open>core/fee_engine.py\<close>\<close>

record FeeEngine =
  fe_settings :: Settings

definition kalshi_fee :: "FeeEngine \<Rightarrow> bool \<Rightarrow> real" where
  "kalshi_fee self is_winning =
     (if \<not> is_winning then 0 else KALSHI_FEE_PER_CONTRACT (fe_settings self))"

definition polymarket_fee :: "FeeEngine \<Rightarrow> real" where
  "polymarket_fee self = POLYMARKET_GAS_COST (fe_settings self)"

definition worst_case_fees :: "FeeEngine \<Rightarrow> real" where
  "worst_case_fees self =
     max (kalshi_fee self True) (polymarket_fee self) + SLIPPAGE_BUFFER (fe_settings self)"

definition fee_adjusted_cost :: "FeeEngine \<Rightarrow> real \<Rightarrow> real" where
  "fee_adjusted_cost self raw_total_cost = raw_total_cost + worst_case_fees self"

definition net_margin :: "FeeEngine \<Rightarrow> real \<Rightarrow> real" where
  "net_margin self raw_total_cost = 1 - fee_adjusted_cost self raw_total_cost"

definition is_profitable :: "FeeEngine \<Rightarrow> real \<Rightarrow> bool" where
  "is_profitable self raw_total_cost \<longleftrightarrow>
     net_margin self raw_total_cost \<ge> MIN_NET_MARGIN (fe_settings self)"

text \<open>
  Every constructor of the sources takes \<^verbatim>\<open>settings: Optional[Settings] = None\<close> and
  starts with \<^verbatim>\<open>settings or get_settings()\<close>; \<open>global\<close> is what \<^verbatim>\<open>get_settings()\<close>
  returns. A \<^verbatim>\<open>Settings\<close> object is always truthy.
\<close>

definition resolve_settings :: "Settings option \<Rightarrow> Settings \<Rightarrow> Settings" where
  "resolve_settings settings global = (case settings of None \<Rightarrow> global | Some s \<Rightarrow> s)"

section \<open>Kill switch: \<^verbatim>\<open>safety/kill_switch.py\<close>\<close>

subsection \<open>The files the switch touches\<close>

text \<open>
  The switch reads and writes one file through \<^verbatim>\<open>pathlib.Path\<close>. The file system is a
  map from paths to contents, with the paths on which \<^verbatim>\<open>write_text\<close> and \<^verbatim>\<open>unlink\<close>
  raise \<^verbatim>\<open>OSError\<close> (a read-only directory, a sticky directory owned by another user).
\<close>

record filesystem =
  files :: "string \<rightharpoonup> message"
  write_denied :: "string set"
  unlink_denied :: "string set"

definition path_exists :: "filesystem \<Rightarrow> string \<Rightarrow> bool" where
  "path_exists fs p \<longleftrightarrow> files fs p \<noteq> None"

definition write_text :: "filesystem \<Rightarrow> string \<Rightarrow> message \<Rightarrow> py_error + filesystem" where
  "write_text fs p content =
     (if p \<in> write_denied fs then Inl OSError
      else Inr (fs\<lparr>files := (files fs)(p \<mapsto> content)\<rparr>))"

definition unlink :: "filesystem \<Rightarrow> string \<Rightarrow> py_error + filesystem" where
  "unlink fs p =
     (if p \<in> unlink_denied fs \<or> files fs p = None then Inl OSError
      else Inr (fs\<lparr>files := (files fs)(p := None)\<rparr>))"

subsection \<open>The switch\<close>

record KillSwitch =
  ks_settings :: Settings
  kill_file :: string
  ks_is_active :: bool
  activated_at :: "real option"
  ks_reason :: message

definition DEFAULT_KILL_FILE :: string where
  "DEFAULT_KILL_FILE = ''KILL_SWITCH''"

definition KillSwitch_init ::
  "string option \<Rightarrow> Settings option \<Rightarrow> Settings \<Rightarrow> real \<Rightarrow> filesystem \<Rightarrow> KillSwitch" where
  "KillSwitch_init kill_file_path settings global now fs =
     (let path = (case kill_file_path of
                    None \<Rightarrow> DEFAULT_KILL_FILE
                  | Some p \<Rightarrow> if p = [] then DEFAULT_KILL_FILE else p)
      in if path_exists fs path
         then \<lparr> ks_settings = resolve_settings settings global, kill_file = path,
                ks_is_active = True, activated_at = Some now,
                ks_reason = [Lit ''kill switch file found on startup''] \<rparr>
         else \<lparr> ks_settings = resolve_settings settings global, kill_file = path,
                ks_is_active = False, activated_at = None, ks_reason = [] \<rparr>)"

definition activate ::
  "real \<Rightarrow> message \<Rightarrow> KillSwitch \<times> filesystem \<Rightarrow> KillSwitch \<times> filesystem" where
  "activate now reason w =
     (case w of (self, fs) \<Rightarrow>
        let self' = self\<lparr>ks_is_active := True, activated_at := Some now, ks_reason := reason\<rparr>;
            content = [Lit (''KILL SWITCH ACTIVATED'' @ [CHR 0x0A] @ ''Time: ''), Iso now,
                       Lit ([CHR 0x0A] @ ''Reason: '')] @ reason @ [Lit [CHR 0x0A]]
        in (case write_text fs (kill_file self') content of
              Inl e \<Rightarrow> (self', fs)
            | Inr fs' \<Rightarrow> (self', fs')))"

definition deactivate ::
  "message \<Rightarrow> KillSwitch \<times> filesystem \<Rightarrow> KillSwitch \<times> filesystem" where
  "deactivate reason w =
     (case w of (self, fs) \<Rightarrow>
        let self' = self\<lparr>ks_is_active := False, activated_at := None, ks_reason := []\<rparr>
        in if path_exists fs (kill_file self')
           then (case unlink fs (kill_file self') of
                   Inl e \<Rightarrow> (self', fs)
                 | Inr fs' \<Rightarrow> (self', fs'))
           else (self', fs))"

text \<open>The property \<^verbatim>\<open>is_active\<close>: a read that may set the attributes.\<close>

definition is_active :: "real \<Rightarrow> KillSwitch \<times> filesystem \<Rightarrow> bool \<times> KillSwitch" where
  "is_active now w =
     (case w of (self, fs) \<Rightarrow>
        if path_exists fs (kill_file self)
        then (if \<not> ks_is_active self
              then (True, self\<lparr>ks_is_active := True,
                                ks_reason := [Lit ''kill switch file detected''],
                                activated_at := Some now\<rparr>)
              else (True, self))
        else (ks_is_active self, self))"

subsection \<open>The token of the API\<close>

text \<open>
  \<^verbatim>\<open>hmac.compare_digest\<close> on two \<^verbatim>\<open>str\<close> arguments raises \<^verbatim>\<open>TypeError\<close> unless both
  are ASCII, and otherwise tells whether they are equal. A \<^typ>\<open>char\<close> below 128 is an
  ASCII character; the others stand for the code points beyond ASCII.
\<close>

definition is_ascii :: "string \<Rightarrow> bool" where
  "is_ascii s \<longleftrightarrow> list_all (\<lambda>c. (of_char c :: nat) < 128) s"

definition compare_digest :: "string \<Rightarrow> string \<Rightarrow> py_error + bool" where
  "compare_digest a b = (if is_ascii a \<and> is_ascii b then Inr (a = b) else Inl TypeError)"

definition validate_token :: "string \<Rightarrow> Settings option \<Rightarrow> Settings \<Rightarrow> py_error + bool" where
  "validate_token provided_token settings global =
     (let s = resolve_settings settings global;
          expected = (case KILL_SWITCH_TOKEN s of None \<Rightarrow> [] | Some t \<Rightarrow> t)
      in if expected = [] then Inr False
         else if provided_token = [] then Inr False
         else compare_digest provided_token expected)"

subsection \<open>A switch and two file systems to evaluate on\<close>

definition fs_empty :: filesystem where
  "fs_empty = \<lparr> files = Map.empty, write_denied = {}, unlink_denied = {} \<rparr>"

definition fs_sticky :: filesystem where
  "fs_sticky = \<lparr> files = Map.empty, write_denied = {}, unlink_denied = {''KILL_SWITCH''} \<rparr>"

definition ks_fresh :: KillSwitch where
  "ks_fresh = KillSwitch_init None None default_settings 0 fs_empty"

section \<open>Circuit breaker: \<^verbatim>\<open>safety/circuit_breaker.py\<close>\<close>

datatype CircuitState = CLOSED | OPEN | HALF_OPEN

text \<open>
  The constructor's parameters and the state. \<open>api_calls\<close> is the deque of
  \<^verbatim>\<open>(timestamp, success)\<close> pairs, oldest first.
\<close>

record CircuitBreaker =
  cb_settings :: Settings
  max_consecutive_failures :: int
  error_rate_threshold :: real
  error_rate_window_sec :: int
  cooldown_sec :: int
  staleness_threshold_sec :: real
  cb_state :: CircuitState
  consecutive_failures :: int
  last_state_change :: real
  trip_reason :: message
  api_calls :: "(real \<times> bool) list"
  last_data_timestamp :: real

definition CircuitBreaker_init ::
  "int \<Rightarrow> real \<Rightarrow> int \<Rightarrow> int \<Rightarrow> real \<Rightarrow> Settings option \<Rightarrow> Settings \<Rightarrow> real \<Rightarrow> CircuitBreaker" where
  "CircuitBreaker_init max_failures rate_threshold window_sec cooldown staleness settings global now =
     \<lparr> cb_settings = resolve_settings settings global,
       max_consecutive_failures = max_failures,
       error_rate_threshold = rate_threshold,
       error_rate_window_sec = window_sec,
       cooldown_sec = cooldown,
       staleness_threshold_sec = staleness,
       cb_state = CLOSED,
       consecutive_failures = 0,
       last_state_change = now,
       trip_reason = [],
       api_calls = [],
       last_data_timestamp = now \<rparr>"

text \<open>The constructor with its default arguments.\<close>

definition CircuitBreaker_default :: "Settings \<Rightarrow> real \<Rightarrow> CircuitBreaker" where
  "CircuitBreaker_default global now = CircuitBreaker_init 3 (1 / 2) 300 300 30 None global now"

definition transition_to :: "real \<Rightarrow> CircuitState \<Rightarrow> message \<Rightarrow> CircuitBreaker \<Rightarrow> CircuitBreaker" where
  "transition_to now new_state reason self = self\<lparr>cb_state := new_state, last_state_change := now\<rparr>"

definition clean_old_calls :: "real \<Rightarrow> CircuitBreaker \<Rightarrow> CircuitBreaker" where
  "clean_old_calls now self =
     (let cutoff = now - real_of_int (error_rate_window_sec self)
      in self\<lparr>api_calls := dropWhile (\<lambda>c. fst c < cutoff) (api_calls self)\<rparr>)"

definition get_error_rate :: "real \<Rightarrow> CircuitBreaker \<Rightarrow> real \<times> CircuitBreaker" where
  "get_error_rate now self =
     (let self' = clean_old_calls now self
      in if api_calls self' = [] then (0, self')
         else (real (length (filter (\<lambda>c. \<not> snd c) (api_calls self')))
                 / real (length (api_calls self')), self'))"

text \<open>The property \<^verbatim>\<open>state\<close>: a read that moves an open breaker on after the cooldown.\<close>

definition state :: "real \<Rightarrow> CircuitBreaker \<Rightarrow> CircuitState \<times> CircuitBreaker" where
  "state now self =
     (if cb_state self = OPEN
      then (let elapsed = now - last_state_change self
            in if elapsed \<ge> real_of_int (cooldown_sec self)
               then (let self' = transition_to now HALF_OPEN [Lit ''cooldown elapsed''] self
                     in (cb_state self', self'))
               else (cb_state self, self))
      else (cb_state self, self))"

definition is_trading_allowed :: "real \<Rightarrow> CircuitBreaker \<Rightarrow> bool \<times> CircuitBreaker" where
  "is_trading_allowed now self =
     (case state now self of (current_state, self') \<Rightarrow>
        (current_state = CLOSED \<or> current_state = HALF_OPEN, self'))"

definition trip :: "real \<Rightarrow> message \<Rightarrow> CircuitBreaker \<Rightarrow> CircuitBreaker" where
  "trip now reason self =
     (transition_to now OPEN reason (self\<lparr>trip_reason := reason\<rparr>))\<lparr>consecutive_failures := 0\<rparr>"

definition reset :: "real \<Rightarrow> CircuitBreaker \<Rightarrow> CircuitBreaker" where
  "reset now self =
     (transition_to now CLOSED [Lit ''manual reset''] self)
       \<lparr>consecutive_failures := 0, trip_reason := []\<rparr>"

definition record_success :: "real \<Rightarrow> CircuitBreaker \<Rightarrow> CircuitBreaker" where
  "record_success now self =
     (let self1 = clean_old_calls now (self\<lparr>api_calls := api_calls self @ [(now, True)]\<rparr>)
      in if cb_state self1 = HALF_OPEN
         then (transition_to now CLOSED [Lit ''half_open test succeeded''] self1)
                \<lparr>consecutive_failures := 0\<rparr>
         else self1\<lparr>consecutive_failures := 0\<rparr>)"

definition record_failure :: "real \<Rightarrow> message \<Rightarrow> CircuitBreaker \<Rightarrow> CircuitBreaker" where
  "record_failure now reason self =
     (let self1 = clean_old_calls now (self\<lparr>api_calls := api_calls self @ [(now, False)]\<rparr>);
          self2 = self1\<lparr>consecutive_failures := consecutive_failures self1 + 1\<rparr>
      in if cb_state self2 = HALF_OPEN
         then trip now (Lit ''half_open test failed: '' # reason) self2
         else if consecutive_failures self2 \<ge> max_consecutive_failures self2
         then trip now ([IntD (consecutive_failures self2), Lit '' consecutive failures: ''] @ reason)
                self2
         else (case get_error_rate now self2 of (error_rate, self3) \<Rightarrow>
                 if error_rate > error_rate_threshold self3 \<and> length (api_calls self3) \<ge> 5
                 then trip now [Lit ''error rate '', Pct 0 error_rate, Lit '' > '',
                                Pct 0 (error_rate_threshold self3)] self3
                 else self3))"

definition record_data_update :: "real \<Rightarrow> CircuitBreaker \<Rightarrow> CircuitBreaker" where
  "record_data_update now self = self\<lparr>last_data_timestamp := now\<rparr>"

definition check_data_staleness :: "real \<Rightarrow> CircuitBreaker \<Rightarrow> bool \<times> CircuitBreaker" where
  "check_data_staleness now self =
     (let elapsed = now - last_data_timestamp self
      in if elapsed > staleness_threshold_sec self
         then (False, trip now [Lit ''data stale for '', Fix 0 elapsed, Lit ''s (threshold='',
                                FloatD (staleness_threshold_sec self), Lit ''s)''] self)
         else (True, self))"

definition check_daily_loss :: "real \<Rightarrow> real \<Rightarrow> real \<Rightarrow> CircuitBreaker \<Rightarrow> bool \<times> CircuitBreaker" where
  "check_daily_loss now daily_pnl max_loss self =
     (if daily_pnl \<le> - max_loss
      then (False, trip now [Lit ''daily loss $'', Fix 2 \<bar>daily_pnl\<bar>, Lit '' >= max $'',
                             Fix 2 max_loss] self)
      else (True, self))"

text \<open>
  A run of \<^verbatim>\<open>record_failure\<close> calls, each with its instant and its reason, and nothing
  else in between.
\<close>

definition record_failures :: "(real \<times> message) list \<Rightarrow> CircuitBreaker \<Rightarrow> CircuitBreaker" where
  "record_failures calls self = fold (\<lambda>c. record_failure (fst c) (snd c)) calls self"

subsection \<open>Breakers and runs of failures to evaluate on\<close>

definition three_failures :: "(real \<times> message) list" where
  "three_failures = [(1, [Lit ''error 0'']), (2, [Lit ''error 1'']), (3, [Lit ''error 2''])]"

definition five_failures :: "(real \<times> message) list" where
  "five_failures = [(1, []), (2, []), (3, []), (4, []), (5, [])]"

definition cb_six :: CircuitBreaker where
  "cb_six = CircuitBreaker_init 6 (1 / 2) 300 300 30 None default_settings 0"

definition cb_history :: CircuitBreaker where
  "cb_history =
     record_success 5 (record_failure 4 [] (record_failure 3 []
       (record_success 2 (record_success 1 (CircuitBreaker_default default_settings 0)))))"

definition cb_tripped :: CircuitBreaker where
  "cb_tripped = trip 0 [Lit ''test trip''] (CircuitBreaker_default default_settings 0)"

section \<open>Risk manager: \<^verbatim>\<open>safety/risk_manager.py\<close>\<close>

text \<open>\<open>trade_timestamps\<close> is the deque of the instants of the recorded trades, oldest first.\<close>

record RiskManager =
  rm_settings :: Settings
  trade_timestamps :: "real list"
  daily_pnl :: real
  total_exposure :: real
  trade_count_today :: int
  rm_is_halted :: bool
  halt_reason :: message

definition RiskManager_init :: "Settings option \<Rightarrow> Settings \<Rightarrow> RiskManager" where
  "RiskManager_init settings global =
     \<lparr> rm_settings = resolve_settings settings global,
       trade_timestamps = [],
       daily_pnl = 0,
       total_exposure = 0,
       trade_count_today = 0,
       rm_is_halted = False,
       halt_reason = [] \<rparr>"

definition clean_old_timestamps :: "real \<Rightarrow> RiskManager \<Rightarrow> RiskManager" where
  "clean_old_timestamps now self =
     (let cutoff = now - 3600
      in self\<lparr>trade_timestamps := dropWhile (\<lambda>t. t < cutoff) (trade_timestamps self)\<rparr>)"

text \<open>
  \<^verbatim>\<open>check_trade_allowed(net_margin, trade_cost_usd, current_exposure)\<close>. The first
  parameter is written \<open>net_margin'\<close>, the plain name being the fee engine's method. The
  timestamps are cleaned only when the first five gates have passed.
\<close>

definition check_trade_allowed ::
  "real \<Rightarrow> real \<Rightarrow> real \<Rightarrow> real \<Rightarrow> RiskManager \<Rightarrow> (bool \<times> message) \<times> RiskManager" where
  "check_trade_allowed now net_margin' trade_cost_usd current_exposure self =
     (if rm_is_halted self
      then ((False, Lit ''Trading halted: '' # halt_reason self), self)
      else if net_margin' < MIN_NET_MARGIN (rm_settings self)
      then ((False, [Lit ''Net margin $'', Fix 4 net_margin', Lit '' < min $'',
                     Fix 4 (MIN_NET_MARGIN (rm_settings self))]), self)
      else if trade_cost_usd > MAX_SINGLE_TRADE_USD (rm_settings self)
      then ((False, [Lit ''Trade $'', Fix 2 trade_cost_usd, Lit '' > max $'',
                     Fix 2 (MAX_SINGLE_TRADE_USD (rm_settings self))]), self)
      else (let projected_exposure = current_exposure + trade_cost_usd
            in if projected_exposure > MAX_TOTAL_EXPOSURE_USD (rm_settings self)
               then ((False, [Lit ''Exposure $'', Fix 2 current_exposure, Lit '' + $'',
                              Fix 2 trade_cost_usd, Lit '' = '', Lit ''$'',
                              Fix 2 projected_exposure, Lit '' > max $'',
                              Fix 2 (MAX_TOTAL_EXPOSURE_USD (rm_settings self))]), self)
               else if daily_pnl self \<le> - MAX_DAILY_LOSS_USD (rm_settings self)
               then ((False, [Lit ''Daily loss $'', Fix 2 \<bar>daily_pnl self\<bar>, Lit '' >= max $'',
                              Fix 2 (MAX_DAILY_LOSS_USD (rm_settings self))]), self)
               else (let self' = clean_old_timestamps now self
                     in if int (length (trade_timestamps self'))
                             \<ge> MAX_TRADES_PER_HOUR (rm_settings self')
                        then ((False, [Lit ''Rate limit: '',
                                       IntD (int (length (trade_timestamps self'))), Lit ''/'',
                                       IntD (MAX_TRADES_PER_HOUR (rm_settings self')),
                                       Lit '' trades/hr'']), self')
                        else ((True, [Lit ''approved'']), self'))))"

definition record_trade :: "real \<Rightarrow> real \<Rightarrow> real \<Rightarrow> RiskManager \<Rightarrow> RiskManager" where
  "record_trade now pnl cost_usd self =
     self\<lparr>trade_timestamps := trade_timestamps self @ [now],
          daily_pnl := daily_pnl self + pnl,
          total_exposure := total_exposure self + cost_usd,
          trade_count_today := trade_count_today self + 1\<rparr>"

definition close_position :: "real \<Rightarrow> RiskManager \<Rightarrow> RiskManager" where
  "close_position cost_usd self = self\<lparr>total_exposure := max 0 (total_exposure self - cost_usd)\<rparr>"

definition halt :: "message \<Rightarrow> RiskManager \<Rightarrow> RiskManager" where
  "halt reason self = self\<lparr>rm_is_halted := True, halt_reason := reason\<rparr>"

definition resume :: "message \<Rightarrow> RiskManager \<Rightarrow> RiskManager" where
  "resume reason self = self\<lparr>rm_is_halted := False, halt_reason := []\<rparr>"

definition reset_daily :: "RiskManager \<Rightarrow> RiskManager" where
  "reset_daily self = self\<lparr>daily_pnl := 0, trade_count_today := 0\<rparr>"

text \<open>
  The six gates in the words of the specification, in its order: for each gate whether it
  blocks the trade, and the reason it gives. The sixth gate counts the trade timestamps
  within the trailing 3600 seconds, wherever they stand in the deque.
\<close>

definition spec_gates ::
  "real \<Rightarrow> real \<Rightarrow> real \<Rightarrow> real \<Rightarrow> RiskManager \<Rightarrow> (bool \<times> message) list" where
  "spec_gates now m cost exposure rm =
     (let s = rm_settings rm;
          n = int (length (filter (\<lambda>t. now - t \<le> 3600) (trade_timestamps rm)))
      in [ (rm_is_halted rm,
              Lit ''Trading halted: '' # halt_reason rm),
           (\<not> m \<ge> MIN_NET_MARGIN s,
              [Lit ''Net margin $'', Fix 4 m, Lit '' < min $'', Fix 4 (MIN_NET_MARGIN s)]),
           (\<not> cost \<le> MAX_SINGLE_TRADE_USD s,
              [Lit ''Trade $'', Fix 2 cost, Lit '' > max $'', Fix 2 (MAX_SINGLE_TRADE_USD s)]),
           (\<not> exposure + cost \<le> MAX_TOTAL_EXPOSURE_USD s,
              [Lit ''Exposure $'', Fix 2 exposure, Lit '' + $'', Fix 2 cost, Lit '' = '',
               Lit ''$'', Fix 2 (exposure + cost), Lit '' > max $'',
               Fix 2 (MAX_TOTAL_EXPOSURE_USD s)]),
           (\<not> daily_pnl rm > - MAX_DAILY_LOSS_USD s,
              [Lit ''Daily loss $'', Fix 2 \<bar>daily_pnl rm\<bar>, Lit '' >= max $'',
               Fix 2 (MAX_DAILY_LOSS_USD s)]),
           (\<not> n < MAX_TRADES_PER_HOUR s,
              [Lit ''Rate limit: '', IntD n, Lit ''/'', IntD (MAX_TRADES_PER_HOUR s),
               Lit '' trades/hr'']) ])"

subsection \<open>Risk managers to evaluate on\<close>

text \<open>
  A limit of two trades an hour; a first trade recorded at the instant 5000 and a second
  at the instant 0, the clock having stepped back in between.
\<close>

definition settings_two_trades :: Settings where
  "settings_two_trades = default_settings\<lparr>MAX_TRADES_PER_HOUR := 2\<rparr>"

definition rm_clock_back :: RiskManager where
  "rm_clock_back =
     record_trade 0 0 1 (record_trade 5000 0 1 (RiskManager_init (Some settings_two_trades) default_settings))"

section \<open>Market data and checks: \<^verbatim>\<open>core/models.py\<close>\<close>

text \<open>
  The pydantic models the detector reads and builds, with the fields it uses.
  \<^verbatim>\<open>PolymarketData\<close> has further fields (\<^verbatim>\<open>current_price\<close>, \<^verbatim>\<open>slug\<close>,
  \<^verbatim>\<open>target_time_utc\<close>) and \<^verbatim>\<open>KalshiData\<close> a \<^verbatim>\<open>current_price\<close>, which the detector
  never reads. The fields of \<^verbatim>\<open>ArbitrageCheck\<close> carry the prefix \<open>ac_\<close>: two of their
  plain names are the fee engine's methods.
\<close>

record PolymarketData =
  price_to_beat :: "real option"
  prices :: "string \<rightharpoonup> real"

record KalshiMarket =
  strike :: real
  yes_bid :: int
  yes_ask :: int
  no_bid :: int
  no_ask :: int
  subtitle :: string

record KalshiData =
  event_ticker :: string
  markets :: "KalshiMarket list"

record ArbitrageCheck =
  ac_kalshi_strike :: real
  ac_kalshi_yes :: real
  ac_kalshi_no :: real
  ac_type :: string
  ac_poly_leg :: string
  ac_kalshi_leg :: string
  ac_poly_cost :: real
  ac_kalshi_cost :: real
  ac_total_cost :: real
  ac_fee_adjusted_cost :: real
  ac_is_arbitrage :: bool
  ac_margin :: real
  ac_net_margin :: real

section \<open>Arbitrage detector: \<^verbatim>\<open>core/arbitrage.py\<close>\<close>

record ArbitrageEngine =
  ae_settings :: Settings
  fee_engine :: FeeEngine

definition ArbitrageEngine_init ::
  "FeeEngine option \<Rightarrow> Settings option \<Rightarrow> Settings \<Rightarrow> ArbitrageEngine" where
  "ArbitrageEngine_init fe settings global =
     (let s = resolve_settings settings global
      in \<lparr> ae_settings = s,
           fee_engine = (case fe of None \<Rightarrow> \<lparr>fe_settings = s\<rparr> | Some e \<Rightarrow> e) \<rparr>)"

definition build_check ::
  "ArbitrageEngine \<Rightarrow> real \<Rightarrow> real \<Rightarrow> real \<Rightarrow> string \<Rightarrow> string \<Rightarrow> string \<Rightarrow> real \<Rightarrow> real
     \<Rightarrow> ArbitrageCheck" where
  "build_check self kalshi_strike kalshi_yes_cost kalshi_no_cost type_str poly_leg kalshi_leg
       poly_cost kalshi_cost =
     (let raw_total = poly_cost + kalshi_cost;
          fee_adjusted = fee_adjusted_cost (fee_engine self) raw_total;
          raw_margin = 1 - raw_total;
          net = net_margin (fee_engine self) raw_total;
          is_arb = is_profitable (fee_engine self) raw_total
      in \<lparr> ac_kalshi_strike = kalshi_strike,
           ac_kalshi_yes = kalshi_yes_cost,
           ac_kalshi_no = kalshi_no_cost,
           ac_type = type_str,
           ac_poly_leg = poly_leg,
           ac_kalshi_leg = kalshi_leg,
           ac_poly_cost = poly_cost,
           ac_kalshi_cost = kalshi_cost,
           ac_total_cost = raw_total,
           ac_fee_adjusted_cost = fee_adjusted,
           ac_is_arbitrage = is_arb,
           ac_margin = raw_margin,
           ac_net_margin = net \<rparr>)"

subsection \<open>Selecting the markets near the reference strike\<close>

text \<open>
  The loop of \<^verbatim>\<open>_select_nearby_markets\<close> over \<^verbatim>\<open>enumerate(sorted_markets)\<close>: the
  markets still to visit, the index \<open>i\<close> of the first of them, and the loop's two
  variables. \<open>min_diff\<close> starts as \<^verbatim>\<open>float("inf")\<close>, which is \<open>None\<close>; every
  difference is below it.
\<close>

fun closest_loop :: "KalshiMarket list \<Rightarrow> real \<Rightarrow> nat \<Rightarrow> real option \<Rightarrow> nat \<Rightarrow> nat" where
  "closest_loop [] poly_strike i min_diff closest_idx = closest_idx"
| "closest_loop (m # ms) poly_strike i min_diff closest_idx =
     (let diff = \<bar>strike m - poly_strike\<bar>
      in if (case min_diff of None \<Rightarrow> True | Some d \<Rightarrow> diff < d)
         then closest_loop ms poly_strike (i + 1) (Some diff) i
         else closest_loop ms poly_strike (i + 1) min_diff closest_idx)"

text \<open>
  A Python slice \<^verbatim>\<open>xs[start:end]\<close>: a negative bound counts from the end, and both
  bounds are clipped to the list.
\<close>

definition py_slice :: "'a list \<Rightarrow> int \<Rightarrow> int \<Rightarrow> 'a list" where
  "py_slice xs start end' =
     (let n = int (length xs);
          clip = (\<lambda>i. if i < 0 then max 0 (i + n) else min i n);
          s = clip start;
          e = clip end'
      in take (nat (e - s)) (drop (nat s) xs))"

definition select_nearby_markets :: "KalshiMarket list \<Rightarrow> real \<Rightarrow> int \<Rightarrow> KalshiMarket list" where
  "select_nearby_markets sorted_markets poly_strike radius =
     (if sorted_markets = [] then []
      else (let closest_idx = int (closest_loop sorted_markets poly_strike 0 None 0);
                start = max 0 (closest_idx - radius);
                end' = min (int (length sorted_markets)) (closest_idx + radius + 1)
            in py_slice sorted_markets start end'))"

subsection \<open>Scanning\<close>

text \<open>
  The inner loop \<^verbatim>\<open>for check in checks\<close> appends every check to \<open>all_checks\<close> and
  the profitable ones to \<open>opportunities\<close>; the outer loop \<^verbatim>\<open>for km in selected\<close>
  builds one or two checks for each market.
\<close>

fun append_checks ::
  "ArbitrageCheck list \<Rightarrow> ArbitrageCheck list \<times> ArbitrageCheck list
     \<Rightarrow> ArbitrageCheck list \<times> ArbitrageCheck list" where
  "append_checks [] acc = acc"
| "append_checks (check # checks) (all_checks, opportunities) =
     append_checks checks
       (all_checks @ [check],
        if ac_is_arbitrage check then opportunities @ [check] else opportunities)"

definition checks_for ::
  "ArbitrageEngine \<Rightarrow> real \<Rightarrow> real \<Rightarrow> real \<Rightarrow> KalshiMarket \<Rightarrow> ArbitrageCheck list" where
  "checks_for self poly_strike poly_up_cost poly_down_cost km =
     (let kalshi_strike = strike km;
          kalshi_yes_cost = real_of_int (yes_ask km) / 100;
          kalshi_no_cost = real_of_int (no_ask km) / 100
      in if poly_strike > kalshi_strike
         then [build_check self kalshi_strike kalshi_yes_cost kalshi_no_cost
                 ''Poly > Kalshi'' ''Down'' ''Yes'' poly_down_cost kalshi_yes_cost]
         else if poly_strike < kalshi_strike
         then [build_check self kalshi_strike kalshi_yes_cost kalshi_no_cost
                 ''Poly < Kalshi'' ''Up'' ''No'' poly_up_cost kalshi_no_cost]
         else [build_check self kalshi_strike kalshi_yes_cost kalshi_no_cost
                 ''Equal'' ''Down'' ''Yes'' poly_down_cost kalshi_yes_cost,
               build_check self kalshi_strike kalshi_yes_cost kalshi_no_cost
                 ''Equal'' ''Up'' ''No'' poly_up_cost kalshi_no_cost])"

fun scan_loop ::
  "ArbitrageEngine \<Rightarrow> real \<Rightarrow> real \<Rightarrow> real \<Rightarrow> KalshiMarket list
     \<Rightarrow> ArbitrageCheck list \<times> ArbitrageCheck list
     \<Rightarrow> ArbitrageCheck list \<times> ArbitrageCheck list" where
  "scan_loop self poly_strike poly_up_cost poly_down_cost [] acc = acc"
| "scan_loop self poly_strike poly_up_cost poly_down_cost (km # kms) acc =
     scan_loop self poly_strike poly_up_cost poly_down_cost kms
       (append_checks (checks_for self poly_strike poly_up_cost poly_down_cost km) acc)"

text \<open>
  \<^verbatim>\<open>sorted(kalshi_data.markets, key=lambda x: x.strike)\<close> is a stable sort by the
  strike, as \<^const>\<open>sort_key\<close> is.
\<close>

definition find_opportunities ::
  "ArbitrageEngine \<Rightarrow> PolymarketData \<Rightarrow> KalshiData
     \<Rightarrow> ArbitrageCheck list \<times> ArbitrageCheck list" where
  "find_opportunities self poly_data kalshi_data =
     (case price_to_beat poly_data of
        None \<Rightarrow> ([], [])
      | Some poly_strike \<Rightarrow>
          (let poly_up_cost = py_get (prices poly_data) ''Up'' 0;
               poly_down_cost = py_get (prices poly_data) ''Down'' 0;
               kalshi_markets = sort_key strike (markets kalshi_data);
               selected = select_nearby_markets kalshi_markets poly_strike 4
           in scan_loop self poly_strike poly_up_cost poly_down_cost selected ([], [])))"

text \<open>
  The specification's words for the detector, to state its properties with. The index of
  the strike closest to the reference strike, ties going to the lower index:
\<close>

definition closest_index :: "KalshiMarket list \<Rightarrow> real \<Rightarrow> nat \<Rightarrow> bool" where
  "closest_index ms k i \<longleftrightarrow>
     i < length ms
     \<and> (\<forall>j < length ms. \<bar>strike (ms ! i) - k\<bar> \<le> \<bar>strike (ms ! j) - k\<bar>)
     \<and> (\<forall>j < i. \<bar>strike (ms ! i) - k\<bar> < \<bar>strike (ms ! j) - k\<bar>)"

text \<open>
  The two strategies, and which of them the specification assigns to a Kalshi market at
  strike \<open>K\<close> given the reference strike \<open>k\<close>: one check Down and Yes when \<open>k > K\<close>, one
  check Up and No when \<open>k < K\<close>, both in that order when they are equal.
\<close>

definition down_yes_check :: "real \<Rightarrow> KalshiMarket \<Rightarrow> ArbitrageCheck \<Rightarrow> bool" where
  "down_yes_check poly_down km c \<longleftrightarrow>
     ac_poly_leg c = ''Down'' \<and> ac_kalshi_leg c = ''Yes''
     \<and> ac_poly_cost c = poly_down \<and> ac_kalshi_cost c = real_of_int (yes_ask km) / 100
     \<and> ac_kalshi_strike c = strike km"

definition up_no_check :: "real \<Rightarrow> KalshiMarket \<Rightarrow> ArbitrageCheck \<Rightarrow> bool" where
  "up_no_check poly_up km c \<longleftrightarrow>
     ac_poly_leg c = ''Up'' \<and> ac_kalshi_leg c = ''No''
     \<and> ac_poly_cost c = poly_up \<and> ac_kalshi_cost c = real_of_int (no_ask km) / 100
     \<and> ac_kalshi_strike c = strike km"

definition spec_strategy ::
  "real \<Rightarrow> real \<Rightarrow> real \<Rightarrow> KalshiMarket \<Rightarrow> ArbitrageCheck list \<Rightarrow> bool" where
  "spec_strategy k poly_up poly_down km cs \<longleftrightarrow>
     (k > strike km \<longrightarrow> length cs = 1 \<and> down_yes_check poly_down km (cs ! 0))
     \<and> (k < strike km \<longrightarrow> length cs = 1 \<and> up_no_check poly_up km (cs ! 0))
     \<and> (k = strike km \<longrightarrow> length cs = 2 \<and> down_yes_check poly_down km (cs ! 0)
                                         \<and> up_no_check poly_up km (cs ! 1))"

subsection \<open>A snapshot to evaluate on\<close>

definition ae_default :: ArbitrageEngine where
  "ae_default = ArbitrageEngine_init None None default_settings"

definition km_low :: KalshiMarket where
  "km_low = \<lparr> strike = 95500, yes_bid = 53, yes_ask = 55, no_bid = 45, no_ask = 47, subtitle = [] \<rparr>"

definition km_equal :: KalshiMarket where
  "km_equal = \<lparr> strike = 96000, yes_bid = 48, yes_ask = 50, no_bid = 50, no_ask = 52, subtitle = [] \<rparr>"

definition km_high :: KalshiMarket where
  "km_high = \<lparr> strike = 97000, yes_bid = 28, yes_ask = 30, no_bid = 70, no_ask = 72, subtitle = [] \<rparr>"

definition pd_sample :: PolymarketData where
  "pd_sample = \<lparr> price_to_beat = Some 96000, prices = [''Up'' \<mapsto> 2 / 5, ''Down'' \<mapsto> 7 / 20] \<rparr>"

definition kd_sample :: KalshiData where
  "kd_sample = \<lparr> event_ticker = ''KXBTCD'', markets = [km_high, km_low, km_equal] \<rparr>"

section \<open>Order book: \<^verbatim>\<open>clients/polymarket_client.py\<close>\<close>

text \<open>
  A level of the book; its attribute \<^verbatim>\<open>size\<close> is the field \<open>size_level\<close>, the plain
  name being a constant of HOL.
\<close>

record OrderBookLevel =
  price :: real
  size_level :: real

record OrderBook =
  bids :: "OrderBookLevel list"
  asks :: "OrderBookLevel list"

text \<open>
  The constructor sorts the bids by falling and the asks by rising price. Python's sort
  is stable, also with \<^verbatim>\<open>reverse=True\<close>: levels of equal price keep their order.
\<close>

definition OrderBook_init :: "OrderBookLevel list \<Rightarrow> OrderBookLevel list \<Rightarrow> OrderBook" where
  "OrderBook_init bids_in asks_in =
     \<lparr> bids = sort_key (\<lambda>x. - price x) bids_in, asks = sort_key price asks_in \<rparr>"

text \<open>
  The loop of \<^verbatim>\<open>fillable_amount\<close> over the levels, with its two accumulators. A
  \<^verbatim>\<open>break\<close> returns the accumulators; dividing by a price of zero raises
  \<^verbatim>\<open>ZeroDivisionError\<close>. The subtraction, the division, the product and the two
  sums are binary64 operations: each rounds its exact result.
\<close>

fun fill_loop ::
  "string \<Rightarrow> real \<Rightarrow> real \<Rightarrow> OrderBookLevel list \<Rightarrow> real \<Rightarrow> real \<Rightarrow> py_error + real \<times> real" where
  "fill_loop side max_price max_usd [] total_contracts total_cost =
     Inr (total_contracts, total_cost)"
| "fill_loop side max_price max_usd (level # levels) total_contracts total_cost =
     (if side = ''BUY'' \<and> price level > max_price then Inr (total_contracts, total_cost)
      else if side = ''SELL'' \<and> price level < max_price then Inr (total_contracts, total_cost)
      else (let remaining_budget = f64_round (max_usd - total_cost)
            in if remaining_budget \<le> 0 then Inr (total_contracts, total_cost)
               else if price level = 0 then Inl ZeroDivisionError
               else (let affordable_contracts = f64_round (remaining_budget / price level);
                         fill = min (size_level level) affordable_contracts
                     in fill_loop side max_price max_usd levels
                          (f64_round (total_contracts + fill))
                          (f64_round (total_cost + f64_round (fill * price level))))))"

definition fillable_amount :: "string \<Rightarrow> real \<Rightarrow> real \<Rightarrow> OrderBook \<Rightarrow> py_error + real \<times> real" where
  "fillable_amount side max_price max_usd self =
     (let levels = (if side = ''BUY'' then asks self else bids self)
      in fill_loop side max_price max_usd levels 0 0)"



subsection \<open>Books to evaluate on\<close>

text \<open>
  One ask of 2000 contracts at the binary64 number nearest to 0.03, and one ask at the
  price zero.
\<close>

definition price_3_cents :: real where
  "price_3_cents = 1080863910568919 / 2 ^ 55"


definition book_zero :: OrderBook where
  "book_zero = OrderBook_init [] [\<lparr>price = 0, size_level = 10\<rparr>]"

section \<open>Position tracker: \<^verbatim>\<open>execution/position_tracker.py\<close>\<close>

datatype Platform = KALSHI | POLYMARKET

datatype PositionSide = LONG | SHORT

text \<open>
  The fields of \<^verbatim>\<open>Position\<close> and \<^verbatim>\<open>ArbitragePosition\<close> carry the prefixes \<open>pos_\<close>
  and \<open>arb_\<close>. The two ledgers are dictionaries in insertion order: lists of pairs of
  an identifier and its entry.
\<close>

record Position =
  pos_id :: message
  pos_platform :: Platform
  pos_side :: PositionSide
  pos_ticker :: message
  pos_entry_price :: real
  pos_size :: int
  pos_cost_usd :: real
  pos_opened_at :: real
  pos_linked_position_id :: "message option"

record ArbitragePosition =
  arb_id :: message
  arb_kalshi_position :: "Position option"
  arb_poly_position :: "Position option"
  arb_total_cost :: real
  arb_expected_payout :: real
  arb_expected_profit :: real
  arb_status :: string
  arb_opened_at :: real
  arb_settled_at :: "real option"

record PositionTracker =
  positions :: "(message \<times> Position) list"
  arb_positions :: "(message \<times> ArbitragePosition) list"
  position_counter :: int
  arb_counter :: int

definition PositionTracker_init :: PositionTracker where
  "PositionTracker_init = \<lparr> positions = [], arb_positions = [], position_counter = 0, arb_counter = 0 \<rparr>"

text \<open>\<^verbatim>\<open>d[key] = value\<close>: an existing key keeps its place, a new one goes last.\<close>

fun dict_set :: "('k \<times> 'v) list \<Rightarrow> 'k \<Rightarrow> 'v \<Rightarrow> ('k \<times> 'v) list" where
  "dict_set [] key v = [(key, v)]"
| "dict_set (p # ps) key v = (if fst p = key then (key, v) # ps else p # dict_set ps key v)"

text \<open>
  \<^verbatim>\<open>round(x, ndigits)\<close> on exact values: to the nearest multiple of \<open>10 ^ - ndigits\<close>,
  a tie going to the even one.
\<close>

definition py_round :: "real \<Rightarrow> nat \<Rightarrow> real" where
  "py_round x ndigits = real_of_int (round_half_even (x * 10 ^ ndigits)) / 10 ^ ndigits"

definition open_position ::
  "real \<Rightarrow> Platform \<Rightarrow> PositionSide \<Rightarrow> message \<Rightarrow> real \<Rightarrow> int \<Rightarrow> message option \<Rightarrow> PositionTracker
     \<Rightarrow> Position \<times> PositionTracker" where
  "open_position now platform side' ticker entry_price size' linked_position_id self =
     (let counter = position_counter self + 1;
          new_id = [Lit ''POS-'', IntPad 6 counter];
          position = \<lparr> pos_id = new_id, pos_platform = platform, pos_side = side',
                       pos_ticker = ticker, pos_entry_price = entry_price, pos_size = size',
                       pos_cost_usd = py_round (entry_price * real_of_int size') 6,
                       pos_opened_at = now, pos_linked_position_id = linked_position_id \<rparr>
      in (position, self\<lparr>position_counter := counter,
                          positions := dict_set (positions self) new_id position\<rparr>))"

definition open_arbitrage ::
  "real \<Rightarrow> Position \<Rightarrow> Position \<Rightarrow> real \<Rightarrow> PositionTracker \<Rightarrow> ArbitragePosition \<times> PositionTracker" where
  "open_arbitrage now kalshi_position poly_position expected_profit self =
     (let counter = arb_counter self + 1;
          new_id = [Lit ''ARB-'', IntPad 6 counter];
          total_cost = pos_cost_usd kalshi_position + pos_cost_usd poly_position;
          arb = \<lparr> arb_id = new_id, arb_kalshi_position = Some kalshi_position,
                  arb_poly_position = Some poly_position,
                  arb_total_cost = py_round total_cost 6, arb_expected_payout = 1,
                  arb_expected_profit = py_round expected_profit 6, arb_status = ''open'',
                  arb_opened_at = now, arb_settled_at = None \<rparr>
      in (arb, self\<lparr>arb_counter := counter,
                     arb_positions := dict_set (arb_positions self) new_id arb\<rparr>))"

definition get_total_exposure :: "PositionTracker \<Rightarrow> real" where
  "get_total_exposure self = sum_list (map (\<lambda>p. pos_cost_usd (snd p)) (positions self))"

definition get_open_position_count :: "PositionTracker \<Rightarrow> nat" where
  "get_open_position_count self = length (positions self)"

section \<open>Order engine: \<^verbatim>\<open>execution/order_engine.py\<close>\<close>

subsection \<open>What the venues answer\<close>

text \<open>
  A venue client answers \<^verbatim>\<open>(result, error)\<close>, of type
  \<^verbatim>\<open>Tuple[Optional[Dict[str, Any]], Optional[str]]\<close>. The values inside a result are
  JSON; a dictionary is a list of pairs with distinct keys.
\<close>

datatype json =
    JNone
  | JBool bool
  | JInt int
  | JFloat real
  | JStr string
  | JList "json list"
  | JDict "(string \<times> json) list"

type_synonym jdict = "(string \<times> json) list"

text \<open>Python's truth value of a JSON value, of an optional dictionary and of an optional string.\<close>

fun truthy :: "json \<Rightarrow> bool" where
  "truthy JNone = False"
| "truthy (JBool b) = b"
| "truthy (JInt i) = (i \<noteq> 0)"
| "truthy (JFloat x) = (x \<noteq> 0)"
| "truthy (JStr s) = (s \<noteq> [])"
| "truthy (JList xs) = (xs \<noteq> [])"
| "truthy (JDict d) = (d \<noteq> [])"

definition dict_truthy :: "jdict option \<Rightarrow> bool" where
  "dict_truthy r = (case r of None \<Rightarrow> False | Some d \<Rightarrow> d \<noteq> [])"

definition err_truthy :: "string option \<Rightarrow> bool" where
  "err_truthy e = (case e of None \<Rightarrow> False | Some s \<Rightarrow> s \<noteq> [])"

text \<open>\<^verbatim>\<open>{err}\<close> in an f-string, for an optional string.\<close>

definition fmt_err :: "string option \<Rightarrow> fpart" where
  "fmt_err e = (case e of None \<Rightarrow> Lit ''None'' | Some s \<Rightarrow> Lit s)"

text \<open>
  The arguments of the three calls the engine makes, and the venues as the engine sees
  them: what each call answers. The clients' protocols are outside the engine; a test
  replaces these methods by fixed answers.
\<close>

record kalshi_order =
  ko_ticker :: message
  ko_side :: string
  ko_action :: string
  ko_count :: int
  ko_price_cents :: int
  ko_order_type :: string
  ko_dry_run :: bool

record poly_order =
  po_token_id :: string
  po_side :: string
  po_price :: real
  po_size :: real
  po_order_type :: string
  po_dry_run :: bool

record venues =
  kalshi_place_order :: "kalshi_order \<Rightarrow> jdict option \<times> string option"
  poly_place_order :: "poly_order \<Rightarrow> jdict option \<times> string option"
  kalshi_cancel_order :: "json \<Rightarrow> jdict option \<times> string option"

datatype venue_call =
    KalshiPlace kalshi_order
  | PolyPlace poly_order
  | KalshiCancel json

subsection \<open>The engine\<close>

text \<open>The member \<^verbatim>\<open>DRY_RUN\<close> of the enumeration is \<open>DRYRUN\<close>, the plain name being the setting.\<close>

datatype ExecutionStatus =
  SUCCESS | DRYRUN | PREFLIGHT_FAILED | LEG1_FAILED | LEG2_FAILED | UNWOUND | ERROR

record ExecutionResult =
  er_status :: ExecutionStatus
  er_opportunity :: "ArbitrageCheck option"
  er_leg1_result :: "jdict option"
  er_leg2_result :: "jdict option"
  er_position_id :: "message option"
  er_error :: "message option"
  er_timestamp :: message

record OrderEngine =
  oe_settings :: Settings
  tracker :: PositionTracker
  trade_count_this_hour :: int
  daily_loss :: real

definition OrderEngine_init ::
  "PositionTracker option \<Rightarrow> Settings option \<Rightarrow> Settings \<Rightarrow> OrderEngine" where
  "OrderEngine_init position_tracker settings global =
     \<lparr> oe_settings = resolve_settings settings global,
       tracker = (case position_tracker of None \<Rightarrow> PositionTracker_init | Some t \<Rightarrow> t),
       trade_count_this_hour = 0,
       daily_loss = 0 \<rparr>"

definition preflight_check :: "ArbitrageCheck \<Rightarrow> OrderEngine \<Rightarrow> bool \<times> message option" where
  "preflight_check opp self =
     (let s = oe_settings self
      in if ac_net_margin opp < MIN_NET_MARGIN s
         then (False, Some [Lit ''Net margin $'', Fix 4 (ac_net_margin opp), Lit '' below min $'',
                            Fix 4 (MIN_NET_MARGIN s)])
         else if trade_count_this_hour self \<ge> MAX_TRADES_PER_HOUR s
         then (False, Some [Lit ''Rate limit: '', IntD (trade_count_this_hour self), Lit ''/'',
                            IntD (MAX_TRADES_PER_HOUR s), Lit '' trades this hour''])
         else (let current_exposure = get_total_exposure (tracker self);
                   trade_cost = ac_total_cost opp
               in if current_exposure + trade_cost > MAX_TOTAL_EXPOSURE_USD s
                  then (False, Some [Lit ''Exposure limit: $'', Fix 2 current_exposure, Lit '' + $'',
                                     Fix 2 trade_cost, Lit '' '', Lit ''> $'',
                                     Fix 2 (MAX_TOTAL_EXPOSURE_USD s)])
                  else if trade_cost > MAX_SINGLE_TRADE_USD s
                  then (False, Some [Lit ''Single trade $'', Fix 2 trade_cost, Lit '' > max $'',
                                     Fix 2 (MAX_SINGLE_TRADE_USD s)])
                  else if daily_loss self \<ge> MAX_DAILY_LOSS_USD s
                  then (False, Some [Lit ''Daily loss $'', Fix 2 (daily_loss self), Lit '' >= max $'',
                                     Fix 2 (MAX_DAILY_LOSS_USD s)])
                  else (True, None)))"

text \<open>\<^verbatim>\<open>str.lower()\<close> on ASCII letters, and \<^verbatim>\<open>int(x)\<close>, which truncates towards zero.\<close>

definition py_lower :: "string \<Rightarrow> string" where
  "py_lower s =
     map (\<lambda>c. let n = (of_char c :: nat) in if 65 \<le> n \<and> n \<le> 90 then char_of (n + 32) else c) s"

definition py_int :: "real \<Rightarrow> int" where
  "py_int x = (if x \<ge> 0 then \<lfloor>x\<rfloor> else \<lceil>x\<rceil>)"

definition kalshi_leg_order :: "ArbitrageCheck \<Rightarrow> kalshi_order" where
  "kalshi_leg_order opp =
     \<lparr> ko_ticker = [Lit ''KXBTCD-STRIKE-'', IntD (py_int (ac_kalshi_strike opp))],
       ko_side = py_lower (ac_kalshi_leg opp),
       ko_action = ''buy'',
       ko_count = 1,
       ko_price_cents = py_int (ac_kalshi_cost opp * 100),
       ko_order_type = ''limit'',
       ko_dry_run = False \<rparr>"

definition execute_kalshi_leg ::
  "venues \<Rightarrow> ArbitrageCheck \<Rightarrow> (jdict option \<times> string option) \<times> venue_call list" where
  "execute_kalshi_leg env opp =
     (kalshi_place_order env (kalshi_leg_order opp), [KalshiPlace (kalshi_leg_order opp)])"

definition poly_leg_order :: "ArbitrageCheck \<Rightarrow> poly_order" where
  "poly_leg_order opp =
     \<lparr> po_token_id = ''placeholder_token_id'',
       po_side = ''BUY'',
       po_price = ac_poly_cost opp,
       po_size = 1,
       po_order_type = ''FOK'',
       po_dry_run = False \<rparr>"

definition execute_poly_leg ::
  "venues \<Rightarrow> ArbitrageCheck \<Rightarrow> (jdict option \<times> string option) \<times> venue_call list" where
  "execute_poly_leg env opp =
     (poly_place_order env (poly_leg_order opp), [PolyPlace (poly_leg_order opp)])"

text \<open>
  The order id that \<^verbatim>\<open>_attempt_unwind_kalshi\<close> reads from a leg-1 result:
  \<^verbatim>\<open>leg1_result.get("order", {})\<close>, and of that, when it is a dictionary,
  \<^verbatim>\<open>.get("order_id")\<close>.
\<close>

definition extract_order_id :: "jdict \<Rightarrow> json" where
  "extract_order_id leg1_result =
     (let order = py_get (map_of leg1_result) ''order'' (JDict [])
      in case order of JDict d \<Rightarrow> py_get (map_of d) ''order_id'' JNone | _ \<Rightarrow> JNone)"

definition attempt_unwind_kalshi :: "venues \<Rightarrow> jdict option \<Rightarrow> bool \<times> venue_call list" where
  "attempt_unwind_kalshi env leg1_result =
     (if \<not> dict_truthy leg1_result then (True, [])
      else (let order_id = (case leg1_result of None \<Rightarrow> JNone | Some d \<Rightarrow> extract_order_id d)
            in if \<not> truthy order_id then (False, [])
               else (case kalshi_cancel_order env order_id of (r, err) \<Rightarrow>
                       if err_truthy err then (False, [KalshiCancel order_id])
                       else (True, [KalshiCancel order_id]))))"

definition record_positions ::
  "real \<Rightarrow> ArbitrageCheck \<Rightarrow> jdict option \<Rightarrow> jdict option \<Rightarrow> PositionTracker
     \<Rightarrow> message \<times> PositionTracker" where
  "record_positions now opp leg1_result leg2_result t =
     (let kalshi_side = (if py_lower (ac_kalshi_leg opp) = ''yes'' then LONG else SHORT);
          poly_side = (if ac_poly_leg opp = ''Up'' \<or> ac_poly_leg opp = ''up'' then LONG else SHORT)
      in case open_position now KALSHI kalshi_side
                [Lit ''KXBTCD-'', IntD (py_int (ac_kalshi_strike opp))]
                (ac_kalshi_cost opp) 1 None t of
           (kalshi_pos, t1) \<Rightarrow>
             (case open_position now POLYMARKET poly_side [Lit ''poly-'', Lit (ac_poly_leg opp)]
                     (ac_poly_cost opp) 1 (Some (pos_id kalshi_pos)) t1 of
                (poly_pos, t2) \<Rightarrow>
                  (case open_arbitrage now kalshi_pos poly_pos (ac_net_margin opp) t2 of
                     (arb, t3) \<Rightarrow> (arb_id arb, t3))))"

text \<open>
  \<^verbatim>\<open>execute_arbitrage\<close> returns its result; the model returns with it the engine after
  the call and the calls made to the venues, in order.
\<close>

definition execute_arbitrage ::
  "real \<Rightarrow> venues \<Rightarrow> ArbitrageCheck \<Rightarrow> OrderEngine
     \<Rightarrow> ExecutionResult \<times> OrderEngine \<times> venue_call list" where
  "execute_arbitrage now env opportunity self =
     (case preflight_check opportunity self of (preflight_ok, preflight_err) \<Rightarrow>
        if \<not> preflight_ok
        then (\<lparr> er_status = PREFLIGHT_FAILED, er_opportunity = Some opportunity,
                 er_leg1_result = None, er_leg2_result = None, er_position_id = None,
                 er_error = preflight_err, er_timestamp = [Iso now] \<rparr>, self, [])
        else if DRY_RUN (oe_settings self)
        then (\<lparr> er_status = DRYRUN, er_opportunity = Some opportunity,
                 er_leg1_result = None, er_leg2_result = None, er_position_id = None,
                 er_error = None, er_timestamp = [Iso now] \<rparr>, self, [])
        else (case execute_kalshi_leg env opportunity of ((leg1_result, leg1_err), calls1) \<Rightarrow>
          if err_truthy leg1_err
          then (\<lparr> er_status = LEG1_FAILED, er_opportunity = Some opportunity,
                   er_leg1_result = None, er_leg2_result = None, er_position_id = None,
                   er_error = Some [Lit ''Kalshi leg failed: '', fmt_err leg1_err],
                   er_timestamp = [Iso now] \<rparr>, self, calls1)
          else (case execute_poly_leg env opportunity of ((leg2_result, leg2_err), calls2) \<Rightarrow>
            if err_truthy leg2_err
            then (case attempt_unwind_kalshi env leg1_result of (unwind_ok, calls3) \<Rightarrow>
                    (\<lparr> er_status = (if unwind_ok then UNWOUND else LEG2_FAILED),
                       er_opportunity = Some opportunity,
                       er_leg1_result = leg1_result, er_leg2_result = None,
                       er_position_id = None,
                       er_error = Some [Lit ''Poly leg failed: '', fmt_err leg2_err,
                                        Lit ''. Unwind: '',
                                        Lit (if unwind_ok then ''success'' else ''FAILED'')],
                       er_timestamp = [Iso now] \<rparr>, self, calls1 @ calls2 @ calls3))
            else (case record_positions now opportunity leg1_result leg2_result (tracker self) of
                    (position_id, t) \<Rightarrow>
                      (\<lparr> er_status = SUCCESS, er_opportunity = Some opportunity,
                         er_leg1_result = leg1_result, er_leg2_result = leg2_result,
                         er_position_id = Some position_id, er_error = None,
                         er_timestamp = [Iso now] \<rparr>,
                       self\<lparr>tracker := t,
                            trade_count_this_hour := trade_count_this_hour self + 1\<rparr>,
                       calls1 @ calls2)))))"

definition reset_hourly_counter :: "OrderEngine \<Rightarrow> OrderEngine" where
  "reset_hourly_counter self = self\<lparr>trade_count_this_hour := 0\<rparr>"

definition reset_daily_loss :: "OrderEngine \<Rightarrow> OrderEngine" where
  "reset_daily_loss self = self\<lparr>daily_loss := 0\<rparr>"

subsection \<open>An opportunity and venues to evaluate on\<close>

definition opp_sample :: ArbitrageCheck where
  "opp_sample =
     \<lparr> ac_kalshi_strike = 96000, ac_kalshi_yes = 45 / 100, ac_kalshi_no = 55 / 100,
       ac_type = ''Poly > Kalshi'', ac_poly_leg = ''Down'', ac_kalshi_leg = ''Yes'',
       ac_poly_cost = 38 / 100, ac_kalshi_cost = 45 / 100, ac_total_cost = 83 / 100,
       ac_fee_adjusted_cost = 87 / 100, ac_is_arbitrage = True, ac_margin = 17 / 100,
       ac_net_margin = 13 / 100 \<rparr>"

definition live_engine :: OrderEngine where
  "live_engine = OrderEngine_init None (Some (default_settings\<lparr>DRY_RUN := False\<rparr>)) default_settings"

text \<open>
  Leg 1 fills with the order id \<open>ord-123\<close>, leg 2 fails, the cancel succeeds; and the
  same with a leg-1 answer that names no order id.
\<close>

definition venues_unwind :: venues where
  "venues_unwind =
     \<lparr> kalshi_place_order =
         (\<lambda>_. (Some [(''order'', JDict [(''order_id'', JStr ''ord-123''),
                                         (''status'', JStr ''filled'')])], None)),
       poly_place_order = (\<lambda>_. (None, Some ''Gas too high'')),
       kalshi_cancel_order = (\<lambda>_. (Some [(''status'', JStr ''cancelled'')], None)) \<rparr>"

definition venues_no_id :: venues where
  "venues_no_id =
     \<lparr> kalshi_place_order = (\<lambda>_. (Some [(''order'', JDict [(''status'', JStr ''filled'')])], None)),
       poly_place_order = (\<lambda>_. (None, Some ''Gas too high'')),
       kalshi_cancel_order = (\<lambda>_. (Some [(''status'', JStr ''cancelled'')], None)) \<rparr>"

section \<open>Properties of the fee engine\<close>

text \<open>
  Claim C4. For every fee engine and every raw total cost \<open>r\<close>: the worst-case fees are
  the larger of the Kalshi fee per contract and the Polymarket gas cost, plus the slippage
  buffer; the fee-adjusted cost is \<open>r\<close> plus the worst-case fees; the net margin is one
  minus the fee-adjusted cost; and the trade is profitable exactly when the net margin is
  at least \<open>MIN_NET_MARGIN\<close>. Hence a raw total whose net margin is strictly below the
  minimum is not profitable, and with a positive minimum a fee-adjusted cost of exactly
  1.00 is not profitable.
\<close>

theorem fee_engine_arithmetic:
  "worst_case_fees fe =
     max (KALSHI_FEE_PER_CONTRACT (fe_settings fe)) (POLYMARKET_GAS_COST (fe_settings fe))
       + SLIPPAGE_BUFFER (fe_settings fe)
   \<and> fee_adjusted_cost fe r = r + worst_case_fees fe
   \<and> net_margin fe r = 1 - fee_adjusted_cost fe r
   \<and> (is_profitable fe r \<longleftrightarrow> net_margin fe r \<ge> MIN_NET_MARGIN (fe_settings fe))
   \<and> (net_margin fe r < MIN_NET_MARGIN (fe_settings fe) \<longrightarrow> \<not> is_profitable fe r)
   \<and> (0 < MIN_NET_MARGIN (fe_settings fe) \<and> fee_adjusted_cost fe r = 1
        \<longrightarrow> \<not> is_profitable fe r)"
  by (simp add: worst_case_fees_def kalshi_fee_def polymarket_fee_def fee_adjusted_cost_def
      net_margin_def is_profitable_def)

theorem fee_engine_arithmetic_witness:
  "worst_case_fees \<lparr>fe_settings = default_settings\<rparr> = 35 / 1000
   \<and> fee_adjusted_cost \<lparr>fe_settings = default_settings\<rparr> (965 / 1000) = 1
   \<and> net_margin \<lparr>fe_settings = default_settings\<rparr> (965 / 1000) = 0
   \<and> 0 < MIN_NET_MARGIN default_settings
   \<and> net_margin \<lparr>fe_settings = default_settings\<rparr> (965 / 1000) < MIN_NET_MARGIN default_settings
   \<and> \<not> is_profitable \<lparr>fe_settings = default_settings\<rparr> (965 / 1000)"
  using fee_engine_arithmetic [of "\<lparr>fe_settings = default_settings\<rparr>" "965 / 1000"]
  by (simp add: default_settings_def)

section \<open>Properties of the kill switch\<close>

text \<open>
  Claim C2. The token validator is fail-closed: when the settings in force carry no
  kill-switch token (the attribute is missing or the empty string), \<open>validate_token\<close>
  returns false for every provided token, so its result does not depend on the input.
\<close>

theorem validate_token_fail_closed:
  assumes "KILL_SWITCH_TOKEN (resolve_settings settings global) = None
           \<or> KILL_SWITCH_TOKEN (resolve_settings settings global) = Some []"
  shows "validate_token provided_token settings global = Inr False
         \<and> validate_token provided_token settings global
             = validate_token other_token settings global"
  using assms by (auto simp: validate_token_def Let_def)

theorem validate_token_fail_closed_witness:
  "KILL_SWITCH_TOKEN (resolve_settings None default_settings) = Some []
   \<and> validate_token ''any-token'' None default_settings = Inr False
   \<and> validate_token ''any-token'' None default_settings
       = validate_token [] None default_settings"
proof -
  have h: "KILL_SWITCH_TOKEN (resolve_settings None default_settings) = Some []"
    by (simp add: resolve_settings_def default_settings_def)
  from validate_token_fail_closed [of None default_settings "''any-token''" "[]"] h
  show ?thesis by blast
qed

text \<open>
  Claim C8, as amended. Activating and then deactivating the kill switch leaves the
  attribute and the property \<open>is_active\<close> false and the sentinel file absent, provided
  that deleting the file does not fail (the delete is best effort: an \<^verbatim>\<open>OSError\<close> is
  logged and the file stays). Activating twice in a row leaves the switch active, and
  \<open>activated_at\<close> and the reason are those of the second activation: \<open>activate\<close>
  stamps every call.
\<close>

theorem kill_switch_round_trip:
  "(kill_file ks \<notin> unlink_denied fs \<longrightarrow>
      (case deactivate r2 (activate t1 r1 (ks, fs)) of (ks2, fs2) \<Rightarrow>
         \<not> ks_is_active ks2 \<and> \<not> fst (is_active t3 (ks2, fs2))
         \<and> \<not> path_exists fs2 (kill_file ks2)))
   \<and> (case activate t2 r3 (activate t1 r1 (ks, fs)) of (ks2, fs2) \<Rightarrow>
         ks_is_active ks2 \<and> fst (is_active t3 (ks2, fs2))
         \<and> activated_at ks2 = Some t2 \<and> ks_reason ks2 = r3
         \<and> activated_at (snd (is_active t3 (ks2, fs2))) = Some t2)"
  by (auto simp: activate_def deactivate_def is_active_def write_text_def unlink_def
      path_exists_def Let_def split: prod.splits sum.splits if_splits)

theorem kill_switch_round_trip_witness:
  "kill_file ks_fresh \<notin> unlink_denied fs_empty
   \<and> \<not> fst (is_active 3 (deactivate [Lit ''all clear''] (activate 1 [Lit ''test''] (ks_fresh, fs_empty))))
   \<and> \<not> path_exists (snd (deactivate [Lit ''all clear''] (activate 1 [Lit ''test''] (ks_fresh, fs_empty))))
         ''KILL_SWITCH''
   \<and> path_exists (snd (activate 1 [Lit ''test''] (ks_fresh, fs_empty))) ''KILL_SWITCH''
   \<and> activated_at (fst (activate 2 [Lit ''again''] (activate 1 [Lit ''test''] (ks_fresh, fs_empty))))
       = Some 2"
  using kill_switch_round_trip
    [where ks = ks_fresh and fs = fs_empty and ?t1.0 = 1 and ?r1.0 = "[Lit ''test'']"
       and ?r2.0 = "[Lit ''all clear'']" and ?t2.0 = 2 and ?r3.0 = "[Lit ''again'']"
       and ?t3.0 = 3]
  by (simp add: ks_fresh_def fs_empty_def KillSwitch_init_def DEFAULT_KILL_FILE_def
      activate_def deactivate_def is_active_def write_text_def unlink_def path_exists_def
      Let_def)

text \<open>
  The claim as it was stated fails twice. After two activations at the instants 1 and 2,
  \<open>activated_at\<close> is the second instant, not the first. And where the file cannot be
  deleted, the switch reads as active again after activate and deactivate, with the file
  still there.
\<close>

theorem kill_switch_first_stamp_counterexample:
  "activated_at (fst (activate 2 [Lit ''again''] (activate 1 [Lit ''test''] (ks_fresh, fs_empty))))
     \<noteq> Some 1
   \<and> fst (is_active 3 (deactivate [Lit ''all clear''] (activate 1 [Lit ''test''] (ks_fresh, fs_sticky))))
   \<and> path_exists (snd (deactivate [Lit ''all clear''] (activate 1 [Lit ''test''] (ks_fresh, fs_sticky))))
        ''KILL_SWITCH''"
  by (simp add: ks_fresh_def fs_empty_def fs_sticky_def KillSwitch_init_def
      DEFAULT_KILL_FILE_def activate_def deactivate_def is_active_def write_text_def
      unlink_def path_exists_def Let_def)

section \<open>Properties of the circuit breaker\<close>

subsection \<open>One failure\<close>

lemma record_failure_config:
  "max_consecutive_failures (record_failure now r cb) = max_consecutive_failures cb"
  by (simp add: record_failure_def trip_def transition_to_def get_error_rate_def
      clean_old_calls_def Let_def split: prod.splits)

lemma record_failure_length:
  "length (api_calls (record_failure now r cb)) \<le> Suc (length (api_calls cb))"
proof -
  have "length (dropWhile P (api_calls cb @ [x])) \<le> Suc (length (api_calls cb))" for P x
    using length_dropWhile_le [of P "api_calls cb @ [x]"] by simp
  then show ?thesis
    by (simp add: record_failure_def trip_def transition_to_def get_error_rate_def
        clean_old_calls_def Let_def split: prod.splits)
qed

lemma record_failure_not_half_open:
  assumes "cb_state cb \<noteq> HALF_OPEN"
  shows "cb_state (record_failure now r cb) = OPEN
         \<or> (cb_state (record_failure now r cb) = cb_state cb
            \<and> consecutive_failures (record_failure now r cb) = consecutive_failures cb + 1
            \<and> consecutive_failures cb + 1 < max_consecutive_failures cb)"
  using assms
  by (simp add: record_failure_def trip_def transition_to_def get_error_rate_def
      clean_old_calls_def Let_def split: prod.splits)

lemma record_failure_few_calls:
  assumes "cb_state cb = CLOSED" "consecutive_failures cb + 1 < max_consecutive_failures cb"
    "length (api_calls cb) + 1 < 5"
  shows "cb_state (record_failure now r cb) = CLOSED"
proof -
  have "length (dropWhile P (api_calls cb @ [x])) < 5" for P x
    using length_dropWhile_le [of P "api_calls cb @ [x]"] assms(3) by simp
  then have "\<not> 5 \<le> length (dropWhile P (dropWhile P (api_calls cb @ [x])))" for P x
    using length_dropWhile_le [of P "dropWhile P (api_calls cb @ [x])"]
    by (metis le_trans not_less)
  with assms(1,2) show ?thesis
    by (simp add: record_failure_def trip_def transition_to_def get_error_rate_def
      clean_old_calls_def Let_def split: prod.splits)
qed

subsection \<open>A run of failures\<close>

lemma record_failures_snoc:
  "record_failures (calls @ [c]) cb = record_failure (fst c) (snd c) (record_failures calls cb)"
  by (simp add: record_failures_def)

lemma record_failures_config:
  "max_consecutive_failures (record_failures calls cb) = max_consecutive_failures cb"
  by (induction calls rule: rev_induct)
     (simp_all add: record_failures_snoc record_failure_config, simp add: record_failures_def)

lemma record_failures_length:
  "length (api_calls (record_failures calls cb)) \<le> length (api_calls cb) + length calls"
proof (induction calls rule: rev_induct)
  case Nil
  then show ?case by (simp add: record_failures_def)
next
  case (snoc c calls)
  from record_failure_length [of "fst c" "snd c" "record_failures calls cb"] snoc
  show ?case by (simp add: record_failures_snoc)
qed

lemma record_failures_closed:
  assumes "cb_state cb = CLOSED" "consecutive_failures cb = 0"
  shows "cb_state (record_failures calls cb) = OPEN
         \<or> (cb_state (record_failures calls cb) = CLOSED
            \<and> consecutive_failures (record_failures calls cb) = int (length calls)
            \<and> (calls \<noteq> [] \<longrightarrow> int (length calls) < max_consecutive_failures cb))"
proof (induction calls rule: rev_induct)
  case Nil
  with assms show ?case by (simp add: record_failures_def)
next
  case (snoc c calls)
  let ?b = "record_failures calls cb"
  have ne: "cb_state ?b \<noteq> HALF_OPEN" using snoc by auto
  from record_failure_not_half_open [OF ne, of "fst c" "snd c"] snoc
  show ?case
    by (auto simp: record_failures_snoc record_failures_config)
qed

lemma record_failures_open_late:
  assumes "cb_state cb = CLOSED" "consecutive_failures cb = 0"
    "int (length (api_calls cb)) + max_consecutive_failures cb \<le> 5"
    "cb_state (record_failures calls cb) = OPEN"
  shows "max_consecutive_failures cb \<le> int (length calls)"
  using assms(4)
proof (induction calls rule: rev_induct)
  case Nil
  with assms(1) show ?case by (simp add: record_failures_def)
next
  case (snoc c calls)
  let ?b = "record_failures calls cb"
  show ?case
  proof (cases "cb_state ?b = OPEN")
    case True
    with snoc.IH show ?thesis by simp
  next
    case False
    with record_failures_closed [OF assms(1,2), of calls]
    have cl: "cb_state ?b = CLOSED" and cf: "consecutive_failures ?b = int (length calls)"
      by auto
    show ?thesis
    proof (rule ccontr)
      assume "\<not> max_consecutive_failures cb \<le> int (length (calls @ [c]))"
      then have lt: "int (length calls) + 1 < max_consecutive_failures cb" by simp
      then have a: "consecutive_failures ?b + 1 < max_consecutive_failures ?b"
        by (simp add: cf record_failures_config)
      from lt assms(3) record_failures_length [of calls cb]
      have b: "length (api_calls ?b) + 1 < 5" by linarith
      from record_failure_few_calls [OF cl a b, of "fst c" "snd c"] snoc.prems
      show False by (simp add: record_failures_snoc)
    qed
  qed
qed

text \<open>
  Claim C5, as amended. Start from a breaker that is \<open>CLOSED\<close> with zero consecutive
  failures and a positive \<open>max_consecutive_failures\<close>, and record \<open>N\<close> failures with
  no success and no read of the state in between. If \<open>N \<ge> max_consecutive_failures\<close>
  the breaker is \<open>OPEN\<close>. The converse holds when the window of recorded calls is
  short enough for the error-rate trigger to stay silent until then: when the calls
  already in the window plus \<open>max_consecutive_failures\<close> are at most five (a new
  breaker with a threshold up to five, so also the default of three), the breaker is
  \<open>OPEN\<close> if and only if \<open>N \<ge> max_consecutive_failures\<close>. Otherwise the error-rate
  trigger (more than the threshold rate of failures among at least five calls in the
  window) may open it earlier.
\<close>

theorem breaker_consecutive_failures:
  assumes "cb_state cb = CLOSED" and "consecutive_failures cb = 0"
    and "0 < max_consecutive_failures cb"
  shows "(max_consecutive_failures cb \<le> int (length calls)
            \<longrightarrow> cb_state (record_failures calls cb) = OPEN)
         \<and> (int (length (api_calls cb)) + max_consecutive_failures cb \<le> 5
            \<longrightarrow> (cb_state (record_failures calls cb) = OPEN
                  \<longleftrightarrow> max_consecutive_failures cb \<le> int (length calls)))"
proof -
  have up: "cb_state (record_failures calls cb) = OPEN"
    if "max_consecutive_failures cb \<le> int (length calls)"
    using record_failures_closed [OF assms(1,2), of calls] that assms(3) by auto
  with record_failures_open_late [OF assms(1,2)] show ?thesis by blast
qed

theorem breaker_consecutive_failures_witness:
  "cb_state (CircuitBreaker_default default_settings 0) = CLOSED
   \<and> consecutive_failures (CircuitBreaker_default default_settings 0) = 0
   \<and> 0 < max_consecutive_failures (CircuitBreaker_default default_settings 0)
   \<and> max_consecutive_failures (CircuitBreaker_default default_settings 0)
        \<le> int (length three_failures)
   \<and> int (length (api_calls (CircuitBreaker_default default_settings 0)))
        + max_consecutive_failures (CircuitBreaker_default default_settings 0) \<le> 5
   \<and> cb_state (record_failures three_failures (CircuitBreaker_default default_settings 0)) = OPEN"
proof -
  let ?cb = "CircuitBreaker_default default_settings 0"
  have h: "cb_state ?cb = CLOSED" "consecutive_failures ?cb = 0"
    "0 < max_consecutive_failures ?cb"
    "max_consecutive_failures ?cb \<le> int (length three_failures)"
    "int (length (api_calls ?cb)) + max_consecutive_failures ?cb \<le> 5"
    by (simp_all add: CircuitBreaker_default_def CircuitBreaker_init_def three_failures_def)
  from breaker_consecutive_failures [OF h(1,2,3), of three_failures] h
  show ?thesis by blast
qed

text \<open>
  The claim as it was stated fails where the error-rate trigger fires first. A new
  breaker with \<open>max_consecutive_failures = 6\<close> is open after five failures: five
  failures out of five calls exceed the rate of one half. And a breaker with the default
  threshold of three, closed with zero consecutive failures after two successes, two
  failures and a success, is open after two failures: four failures out of seven calls.
\<close>

lemma cb_history_value:
  "cb_history = (CircuitBreaker_default default_settings 0)
     \<lparr>api_calls := [(1, True), (2, True), (3, False), (4, False), (5, True)]\<rparr>"
  by (simp add: cb_history_def CircuitBreaker_default_def CircuitBreaker_init_def
      record_success_def record_failure_def clean_old_calls_def get_error_rate_def Let_def)

theorem breaker_error_rate_counterexample:
  "cb_state cb_six = CLOSED \<and> consecutive_failures cb_six = 0
   \<and> cb_state (record_failures five_failures cb_six) = OPEN
   \<and> \<not> max_consecutive_failures cb_six \<le> int (length five_failures)
   \<and> cb_state cb_history = CLOSED \<and> consecutive_failures cb_history = 0
   \<and> cb_state (record_failures [(6, []), (7, [])] cb_history) = OPEN
   \<and> \<not> max_consecutive_failures cb_history \<le> int (length [(6 :: real, [] :: message), (7, [])])"
  by (simp add: cb_history_value, simp add: cb_six_def five_failures_def
      CircuitBreaker_default_def CircuitBreaker_init_def record_failures_def
      record_failure_def trip_def transition_to_def clean_old_calls_def get_error_rate_def
      Let_def)

text \<open>
  Claim C6. Reading \<open>state\<close> while the breaker is \<open>OPEN\<close> and at least \<open>cooldown_sec\<close>
  have passed since the last transition moves it to \<open>HALF_OPEN\<close> and returns that.
  From \<open>HALF_OPEN\<close> one \<open>record_success\<close> closes the breaker and one
  \<open>record_failure\<close> opens it again, whatever the count of consecutive failures and
  the threshold are.
\<close>

theorem half_open_probe:
  "(cb_state cb = OPEN \<and> real_of_int (cooldown_sec cb) \<le> now - last_state_change cb
      \<longrightarrow> fst (state now cb) = HALF_OPEN \<and> cb_state (snd (state now cb)) = HALF_OPEN)
   \<and> (cb_state cb = HALF_OPEN
      \<longrightarrow> cb_state (record_success now cb) = CLOSED
        \<and> cb_state (record_failure now reason cb) = OPEN)"
  by (simp add: state_def record_success_def record_failure_def trip_def transition_to_def
      clean_old_calls_def Let_def)

theorem half_open_probe_witness:
  "cb_state cb_tripped = OPEN
   \<and> real_of_int (cooldown_sec cb_tripped) \<le> 301 - last_state_change cb_tripped
   \<and> fst (state 301 cb_tripped) = HALF_OPEN
   \<and> cb_state (snd (state 301 cb_tripped)) = HALF_OPEN
   \<and> cb_state (record_success 302 (snd (state 301 cb_tripped))) = CLOSED
   \<and> cb_state (record_failure 302 [Lit ''still broken''] (snd (state 301 cb_tripped))) = OPEN"
proof -
  have h: "cb_state cb_tripped = OPEN"
    "real_of_int (cooldown_sec cb_tripped) \<le> 301 - last_state_change cb_tripped"
    by (simp_all add: cb_tripped_def trip_def transition_to_def CircuitBreaker_default_def
        CircuitBreaker_init_def)
  from half_open_probe [of cb_tripped 301] h
  have s: "fst (state 301 cb_tripped) = HALF_OPEN"
    "cb_state (snd (state 301 cb_tripped)) = HALF_OPEN" by blast+
  from half_open_probe [of "snd (state 301 cb_tripped)" 302 "[Lit ''still broken'']"] s(2)
  have "cb_state (record_success 302 (snd (state 301 cb_tripped))) = CLOSED"
    "cb_state (record_failure 302 [Lit ''still broken''] (snd (state 301 cb_tripped))) = OPEN"
    by blast+
  with h s show ?thesis by blast
qed

section \<open>Properties of the risk manager\<close>

text \<open>
  The cleaning pops from the left while the oldest timestamp is older than an hour. On a
  deque in nondecreasing order this leaves exactly the timestamps within the trailing
  3600 seconds.
\<close>

lemma dropWhile_sorted_filter:
  fixes ts :: "real list"
  assumes "sorted ts"
  shows "dropWhile (\<lambda>t. t < c) ts = filter (\<lambda>t. c \<le> t) ts"
  using assms
proof (induction ts)
  case Nil
  then show ?case by simp
next
  case (Cons t ts)
  show ?case
  proof (cases "t < c")
    case True
    with Cons show ?thesis by simp
  next
    case False
    with Cons.prems have "\<forall>x \<in> set ts. c \<le> x" by auto
    then have "filter (\<lambda>t. c \<le> t) ts = ts" by (simp add: filter_id_conv)
    with False show ?thesis by simp
  qed
qed

lemma clean_old_timestamps_sorted:
  assumes "sorted (trade_timestamps rm)"
  shows "trade_timestamps (clean_old_timestamps now rm)
         = filter (\<lambda>t. now - t \<le> 3600) (trade_timestamps rm)"
proof -
  have "(\<lambda>t. now - 3600 \<le> t) = (\<lambda>t. now - t \<le> 3600)" by (rule ext) linarith
  with dropWhile_sorted_filter [OF assms, of "now - 3600"] show ?thesis
    by (simp add: clean_old_timestamps_def Let_def)
qed

text \<open>
  \<open>record_trade\<close> appends the instant of the clock, so the deque is in nondecreasing
  order as long as the clock does not step back; the check keeps it so.
\<close>

lemma record_trade_sorted:
  assumes "sorted (trade_timestamps rm)" and "\<forall>t \<in> set (trade_timestamps rm). t \<le> now"
  shows "sorted (trade_timestamps (record_trade now pnl cost rm))"
  using assms by (simp add: record_trade_def sorted_append)

lemma check_trade_allowed_sorted:
  assumes "sorted (trade_timestamps rm)"
  shows "sorted (trade_timestamps (snd (check_trade_allowed now m cost exposure rm)))"
  using assms sorted_wrt_dropWhile [of "(\<le>)" "trade_timestamps rm"]
  by (simp add: check_trade_allowed_def clean_old_timestamps_def Let_def sorted_dropWhile)

text \<open>
  Claim C7, as amended. When the recorded trade timestamps are in nondecreasing order,
  \<open>check_trade_allowed\<close> evaluates the six gates in the order halt, margin, single
  trade, exposure, daily loss, hourly rate: its answer is \<open>(False, reason)\<close> with the
  reason of the first gate in that order that blocks, and \<open>(True, "approved")\<close> when no
  gate blocks. Each reason starts with the text that names its gate.
\<close>

theorem check_trade_allowed_first_failing_gate:
  assumes "sorted (trade_timestamps rm)"
  shows "fst (check_trade_allowed now m cost exposure rm) =
     (case find fst (spec_gates now m cost exposure rm) of
        None \<Rightarrow> (True, [Lit ''approved''])
      | Some g \<Rightarrow> (False, snd g))
   \<and> map (\<lambda>g. hd (snd g)) (spec_gates now m cost exposure rm) =
       [Lit ''Trading halted: '', Lit ''Net margin $'', Lit ''Trade $'', Lit ''Exposure $'',
        Lit ''Daily loss $'', Lit ''Rate limit: '']"
proof -
  have rs: "rm_settings (clean_old_timestamps now rm) = rm_settings rm"
    by (simp add: clean_old_timestamps_def Let_def)
  show ?thesis
    by (simp add: check_trade_allowed_def spec_gates_def Let_def not_le not_less
        clean_old_timestamps_sorted [OF assms] rs)
qed

theorem check_trade_allowed_first_failing_gate_witness:
  "sorted (trade_timestamps (record_trade 200 0 1 (RiskManager_init None default_settings)))
   \<and> fst (check_trade_allowed 1000 (15 / 1000) 60 0
            (record_trade 200 0 1 (RiskManager_init None default_settings))) =
     (False, [Lit ''Net margin $'', Fix 4 (15 / 1000), Lit '' < min $'', Fix 4 (2 / 100)])
   \<and> map fst (spec_gates 1000 (15 / 1000) 60 0
                 (record_trade 200 0 1 (RiskManager_init None default_settings))) =
       [False, True, True, False, False, False]"
proof -
  let ?rm = "record_trade 200 0 1 (RiskManager_init None default_settings)"
  have h: "sorted (trade_timestamps ?rm)"
    by (simp add: record_trade_def RiskManager_init_def)
  have g: "map fst (spec_gates 1000 (15 / 1000) 60 0 ?rm) = [False, True, True, False, False, False]"
    by (simp add: spec_gates_def record_trade_def RiskManager_init_def
        resolve_settings_def default_settings_def Let_def)
  have f: "find fst (spec_gates 1000 (15 / 1000) 60 0 ?rm)
           = Some (True, [Lit ''Net margin $'', Fix 4 (15 / 1000), Lit '' < min $'', Fix 4 (2 / 100)])"
    by (simp add: spec_gates_def record_trade_def RiskManager_init_def
        resolve_settings_def default_settings_def Let_def)
  from check_trade_allowed_first_failing_gate [OF h, of 1000 "15 / 1000" 60 0] h g f
  show ?thesis by simp
qed

text \<open>
  The claim as it was stated fails on a deque that is out of order. With a limit of two
  trades an hour, a trade recorded at the instant 5000 and then one at the instant 0, the
  check at the instant 5000 finds one trade within the trailing hour, so that no gate
  blocks; yet the cleaning stops at the first timestamp, two timestamps stay, and the
  answer is the reason of the rate gate.
\<close>

theorem check_trade_allowed_unsorted_counterexample:
  "map fst (spec_gates 5000 (13 / 100) (83 / 100) 0 rm_clock_back)
     = [False, False, False, False, False, False]
   \<and> fst (check_trade_allowed 5000 (13 / 100) (83 / 100) 0 rm_clock_back)
       = (False, [Lit ''Rate limit: '', IntD 2, Lit ''/'', IntD 2, Lit '' trades/hr''])
   \<and> fst (check_trade_allowed 5000 (13 / 100) (83 / 100) 0 rm_clock_back)
       \<noteq> (True, [Lit ''approved''])"
  by (simp add: rm_clock_back_def settings_two_trades_def record_trade_def RiskManager_init_def
      resolve_settings_def default_settings_def spec_gates_def check_trade_allowed_def
      clean_old_timestamps_def Let_def)

section \<open>Properties of the detector\<close>

subsection \<open>The checks are those of the selected markets, in order\<close>

lemma append_checks_fst: "fst (append_checks cs acc) = fst acc @ cs"
  by (induction cs acc rule: append_checks.induct) simp_all

lemma scan_loop_fst:
  "fst (scan_loop self ps up down kms acc) = fst acc @ concat (map (checks_for self ps up down) kms)"
  by (induction kms arbitrary: acc) (simp_all add: append_checks_fst)

lemma find_opportunities_checks:
  assumes "price_to_beat pd = Some k"
  shows "fst (find_opportunities ae pd kd)
         = concat (map (checks_for ae k (py_get (prices pd) ''Up'' 0) (py_get (prices pd) ''Down'' 0))
                     (select_nearby_markets (sort_key strike (markets kd)) k 4))"
  using assms by (simp add: find_opportunities_def Let_def scan_loop_fst)

lemma checks_for_length: "length (checks_for self ps up down km) \<le> 2"
  by (simp add: checks_for_def Let_def)

lemma length_concat_bound:
  "(\<And>x. x \<in> set xs \<Longrightarrow> length (f x) \<le> b) \<Longrightarrow> length (concat (map f xs)) \<le> b * length xs"
  by (induction xs) (simp_all add: add_mono)

lemma checks_for_strategy: "spec_strategy k up down km (checks_for self k up down km)"
  by (simp add: spec_strategy_def checks_for_def down_yes_check_def up_no_check_def
      build_check_def Let_def)

lemma checks_for_strike:
  "c \<in> set (checks_for self k up down km) \<Longrightarrow> ac_kalshi_strike c = strike km"
  by (auto simp: checks_for_def build_check_def Let_def split: if_splits)

lemma filter_checks_other:
  assumes "strike km' \<noteq> x"
  shows "filter (\<lambda>c. ac_kalshi_strike c = x) (checks_for self k up down km') = []"
  using assms by (auto simp: filter_empty_conv dest: checks_for_strike)

lemma filter_checks_same:
  "filter (\<lambda>c. ac_kalshi_strike c = strike km) (checks_for self k up down km)
   = checks_for self k up down km"
  by (auto simp: filter_id_conv dest: checks_for_strike)

lemma filter_concat_checks:
  assumes "distinct (map strike kms)" "km \<in> set kms"
  shows "filter (\<lambda>c. ac_kalshi_strike c = strike km) (concat (map (checks_for self k up down) kms))
         = checks_for self k up down km"
  using assms
proof (induction kms)
  case Nil
  then show ?case by simp
next
  case (Cons a kms)
  show ?case
  proof (cases "km = a")
    case True
    have "filter (\<lambda>c. ac_kalshi_strike c = strike a) (concat (map (checks_for self k up down) kms)) = []"
    proof -
      have "strike b \<noteq> strike a" if "b \<in> set kms" for b
      proof
        assume "strike b = strike a"
        then have "strike a \<in> strike ` set kms" using that by (metis imageI)
        with Cons.prems(1) show False by simp
      qed
      then have "\<forall>b \<in> set kms. strike b \<noteq> strike a" by blast
      then show ?thesis
        by (induction kms) (simp_all add: filter_checks_other)
    qed
    with True show ?thesis by (simp add: filter_checks_same)
  next
    case False
    with Cons.prems have in_tl: "km \<in> set kms" and ne: "strike a \<noteq> strike km" by auto
    with Cons show ?thesis by (simp add: filter_checks_other)
  qed
qed

subsection \<open>The selected markets are a window around the closest strike\<close>

lemma select_nearby_length: "length (select_nearby_markets ms ps 4) \<le> 9"
proof (cases "ms = []")
  case True
  then show ?thesis by (simp add: select_nearby_markets_def)
next
  case False
  then show ?thesis
    by (auto simp: select_nearby_markets_def py_slice_def Let_def)
qed

text \<open>
  The loop started with a finite minimum \<open>d\<close>: either no remaining market is closer
  than \<open>d\<close> and the index is unchanged, or the result is the first of the remaining
  markets at the least distance, which is below \<open>d\<close>.
\<close>

lemma closest_loop_Some:
  "(closest_loop ms k i (Some d) ci = ci \<and> (\<forall>m \<in> set ms. d \<le> \<bar>strike m - k\<bar>))
   \<or> (\<exists>p < length ms. closest_loop ms k i (Some d) ci = i + p
         \<and> \<bar>strike (ms ! p) - k\<bar> < d
         \<and> (\<forall>j < length ms. \<bar>strike (ms ! p) - k\<bar> \<le> \<bar>strike (ms ! j) - k\<bar>)
         \<and> (\<forall>j < p. \<bar>strike (ms ! p) - k\<bar> < \<bar>strike (ms ! j) - k\<bar>))"
proof (induction ms arbitrary: i d ci)
  case Nil
  then show ?case by simp
next
  case (Cons m ms)
  let ?diff = "\<bar>strike m - k\<bar>"
  show ?case
  proof (cases "?diff < d")
    case True
    then have step: "closest_loop (m # ms) k i (Some d) ci = closest_loop ms k (i + 1) (Some ?diff) i"
      by simp
    from Cons.IH [of "i + 1" ?diff i]
    show ?thesis
    proof (elim disjE conjE exE)
      assume a: "closest_loop ms k (i + 1) (Some ?diff) i = i"
        and b: "\<forall>x \<in> set ms. ?diff \<le> \<bar>strike x - k\<bar>"
      have "\<forall>j < length (m # ms). ?diff \<le> \<bar>strike ((m # ms) ! j) - k\<bar>"
        using b by (auto simp: nth_Cons split: nat.splits)
      with a True step show ?thesis
        by (intro disjI2 exI [of _ 0]) simp
    next
      fix p
      assume p: "p < length ms"
        and a: "closest_loop ms k (i + 1) (Some ?diff) i = i + 1 + p"
        and lt: "\<bar>strike (ms ! p) - k\<bar> < ?diff"
        and mn: "\<forall>j < length ms. \<bar>strike (ms ! p) - k\<bar> \<le> \<bar>strike (ms ! j) - k\<bar>"
        and fs: "\<forall>j < p. \<bar>strike (ms ! p) - k\<bar> < \<bar>strike (ms ! j) - k\<bar>"
      have "\<forall>j < length (m # ms). \<bar>strike (ms ! p) - k\<bar> \<le> \<bar>strike ((m # ms) ! j) - k\<bar>"
        using mn lt by (auto simp: nth_Cons split: nat.splits)
      moreover have "\<forall>j < Suc p. \<bar>strike (ms ! p) - k\<bar> < \<bar>strike ((m # ms) ! j) - k\<bar>"
        using fs lt by (auto simp: nth_Cons split: nat.splits)
      ultimately show ?thesis
        using p a lt True step by (intro disjI2 exI [of _ "Suc p"]) simp
    qed
  next
    case False
    then have step: "closest_loop (m # ms) k i (Some d) ci = closest_loop ms k (i + 1) (Some d) ci"
      by simp
    from Cons.IH [of "i + 1" d ci]
    show ?thesis
    proof (elim disjE conjE exE)
      assume a: "closest_loop ms k (i + 1) (Some d) ci = ci"
        and b: "\<forall>x \<in> set ms. d \<le> \<bar>strike x - k\<bar>"
      with False step show ?thesis by (intro disjI1) simp
    next
      fix p
      assume p: "p < length ms"
        and a: "closest_loop ms k (i + 1) (Some d) ci = i + 1 + p"
        and lt: "\<bar>strike (ms ! p) - k\<bar> < d"
        and mn: "\<forall>j < length ms. \<bar>strike (ms ! p) - k\<bar> \<le> \<bar>strike (ms ! j) - k\<bar>"
        and fs: "\<forall>j < p. \<bar>strike (ms ! p) - k\<bar> < \<bar>strike (ms ! j) - k\<bar>"
      have "\<forall>j < length (m # ms). \<bar>strike (ms ! p) - k\<bar> \<le> \<bar>strike ((m # ms) ! j) - k\<bar>"
        using mn lt False by (auto simp: nth_Cons split: nat.splits)
      moreover have "\<forall>j < Suc p. \<bar>strike (ms ! p) - k\<bar> < \<bar>strike ((m # ms) ! j) - k\<bar>"
        using fs lt False by (auto simp: nth_Cons split: nat.splits)
      ultimately show ?thesis
        using p a lt step by (intro disjI2 exI [of _ "Suc p"]) simp
    qed
  qed
qed

lemma closest_loop_closest:
  assumes "ms \<noteq> []"
  shows "closest_index ms k (closest_loop ms k 0 None 0)"
proof -
  from assms obtain m ms' where ms: "ms = m # ms'" by (cases ms) auto
  let ?diff = "\<bar>strike m - k\<bar>"
  have step: "closest_loop ms k 0 None 0 = closest_loop ms' k 1 (Some ?diff) 0"
    by (simp add: ms)
  from closest_loop_Some [of ms' k 1 ?diff 0]
  show ?thesis
  proof (elim disjE conjE exE)
    assume a: "closest_loop ms' k 1 (Some ?diff) 0 = 0"
      and b: "\<forall>x \<in> set ms'. ?diff \<le> \<bar>strike x - k\<bar>"
    have "\<forall>j < length ms. ?diff \<le> \<bar>strike (ms ! j) - k\<bar>"
      using b by (auto simp: ms nth_Cons split: nat.splits)
    with a step show ?thesis by (simp add: closest_index_def ms)
  next
    fix p
    assume p: "p < length ms'"
      and a: "closest_loop ms' k 1 (Some ?diff) 0 = 1 + p"
      and lt: "\<bar>strike (ms' ! p) - k\<bar> < ?diff"
      and mn: "\<forall>j < length ms'. \<bar>strike (ms' ! p) - k\<bar> \<le> \<bar>strike (ms' ! j) - k\<bar>"
      and fs: "\<forall>j < p. \<bar>strike (ms' ! p) - k\<bar> < \<bar>strike (ms' ! j) - k\<bar>"
    have "\<forall>j < length ms. \<bar>strike (ms' ! p) - k\<bar> \<le> \<bar>strike (ms ! j) - k\<bar>"
      using mn lt by (auto simp: ms nth_Cons split: nat.splits)
    moreover have "\<forall>j < Suc p. \<bar>strike (ms' ! p) - k\<bar> < \<bar>strike (ms ! j) - k\<bar>"
      using fs lt by (auto simp: ms nth_Cons split: nat.splits)
    ultimately show ?thesis
      using p a step by (simp add: closest_index_def ms)
  qed
qed

lemma take_drop_nth:
  assumes "e \<le> length xs"
  shows "take (e - s) (drop s xs) = map (nth xs) [s..<e]"
proof -
  have "take (e - s) (drop s (map (nth xs) [0..<length xs])) = map (nth xs) [s..<e]"
    using assms by (cases "s \<le> e") (simp_all add: take_map drop_map)
  then show ?thesis by (simp add: map_nth)
qed

lemma py_slice_window:
  assumes "i < length ms"
  shows "py_slice ms (max 0 (int i - 4)) (min (int (length ms)) (int i + 4 + 1))
         = map (nth ms) [i - 4 ..< min (length ms) (i + 5)]"
proof -
  have "py_slice ms (max 0 (int i - 4)) (min (int (length ms)) (int i + 4 + 1))
        = take (min (length ms) (i + 5) - (i - 4)) (drop (i - 4) ms)"
    using assms by (auto simp: py_slice_def Let_def nat_diff_distrib' min_def max_def
        intro!: arg_cong2 [where f = take])
  then show ?thesis by (simp add: take_drop_nth)
qed

lemma select_nearby_window:
  assumes "ms \<noteq> []"
  shows "select_nearby_markets ms k 4
         = map (nth ms) [closest_loop ms k 0 None 0 - 4
                          ..< min (length ms) (closest_loop ms k 0 None 0 + 5)]"
proof -
  from closest_loop_closest [OF assms, of k]
  have "closest_loop ms k 0 None 0 < length ms" by (simp add: closest_index_def)
  from py_slice_window [OF this] assms show ?thesis
    by (simp add: select_nearby_markets_def Let_def)
qed

subsection \<open>The snapshot, evaluated\<close>

lemma sample_sorted: "sort_key strike (markets kd_sample) = [km_low, km_equal, km_high]"
  by (simp add: kd_sample_def km_low_def km_equal_def km_high_def)

lemma sample_selected:
  "select_nearby_markets [km_low, km_equal, km_high] 96000 4 = [km_low, km_equal, km_high]"
  by (simp add: select_nearby_markets_def py_slice_def Let_def km_low_def km_equal_def km_high_def)

lemma sample_checks:
  "map (\<lambda>c. (ac_kalshi_strike c, ac_poly_leg c, ac_kalshi_leg c, ac_poly_cost c, ac_kalshi_cost c))
     (fst (find_opportunities ae_default pd_sample kd_sample))
   = [(95500, ''Down'', ''Yes'', 7 / 20, 55 / 100),
      (96000, ''Down'', ''Yes'', 7 / 20, 50 / 100),
      (96000, ''Up'', ''No'', 2 / 5, 52 / 100),
      (97000, ''Up'', ''No'', 2 / 5, 72 / 100)]"
proof -
  have h: "price_to_beat pd_sample = Some 96000" by (simp add: pd_sample_def)
  have p: "py_get (prices pd_sample) ''Up'' 0 = 2 / 5" "py_get (prices pd_sample) ''Down'' 0 = 7 / 20"
    by (simp_all add: pd_sample_def py_get_def)
  show ?thesis
    unfolding find_opportunities_checks [OF h] sample_sorted sample_selected p
    by (simp add: checks_for_def build_check_def Let_def km_low_def km_equal_def km_high_def)
qed

subsection \<open>Strategy assignment and neighborhood bound\<close>

text \<open>
  Claim C3. With the reference strike \<open>k\<close> present, the list of all checks is the
  concatenation, over the scanned markets in order, of the checks of each market, and
  these are as the specification assigns them: for a market at strike \<open>K\<close> exactly one
  check with Polymarket leg Down and Kalshi leg Yes, at the costs \<open>poly_down\<close> and
  \<open>yes_ask / 100\<close>, when \<open>k > K\<close>; exactly one check with legs Up and No, at the costs
  \<open>poly_up\<close> and \<open>no_ask / 100\<close>, when \<open>k < K\<close>; both checks when \<open>k = K\<close>. When the
  Kalshi strikes are distinct, the checks the detector returns for the strike of a scanned
  market are exactly those.
\<close>

theorem strategy_assignment:
  assumes "price_to_beat pd = Some k"
  shows "(\<exists>css. fst (find_opportunities ae pd kd) = concat css
            \<and> list_all2 (spec_strategy k (py_get (prices pd) ''Up'' 0) (py_get (prices pd) ''Down'' 0))
                 (select_nearby_markets (sort_key strike (markets kd)) k 4) css)
         \<and> (distinct (map strike (markets kd)) \<longrightarrow>
              (\<forall>km \<in> set (select_nearby_markets (sort_key strike (markets kd)) k 4).
                 spec_strategy k (py_get (prices pd) ''Up'' 0) (py_get (prices pd) ''Down'' 0) km
                   (filter (\<lambda>c. ac_kalshi_strike c = strike km)
                      (fst (find_opportunities ae pd kd)))))"
proof (intro conjI impI ballI)
  let ?up = "py_get (prices pd) ''Up'' 0" and ?down = "py_get (prices pd) ''Down'' 0"
  let ?sel = "select_nearby_markets (sort_key strike (markets kd)) k 4"
  have "list_all2 (spec_strategy k ?up ?down) ?sel (map (checks_for ae k ?up ?down) ?sel)"
    by (simp add: list_all2_map2 list_all2_same checks_for_strategy)
  with find_opportunities_checks [OF assms, of ae kd]
  show "\<exists>css. fst (find_opportunities ae pd kd) = concat css
             \<and> list_all2 (spec_strategy k ?up ?down) ?sel css"
    by blast
next
  let ?up = "py_get (prices pd) ''Up'' 0" and ?down = "py_get (prices pd) ''Down'' 0"
  let ?sel = "select_nearby_markets (sort_key strike (markets kd)) k 4"
  fix km
  assume d: "distinct (map strike (markets kd))" and km: "km \<in> set ?sel"
  have "distinct (map strike (sort_key strike (markets kd)))"
    using d by (simp add: distinct_map)
  moreover have "?sel = [] \<or> (\<exists>a b. ?sel = take a (drop b (sort_key strike (markets kd))))"
    by (auto simp: select_nearby_markets_def py_slice_def Let_def)
  ultimately have "distinct (map strike ?sel)"
    by (auto simp: take_map [symmetric] drop_map [symmetric] intro: distinct_take distinct_drop)
  from filter_concat_checks [OF this km, of ae k ?up ?down]
  show "spec_strategy k ?up ?down km
          (filter (\<lambda>c. ac_kalshi_strike c = strike km) (fst (find_opportunities ae pd kd)))"
    by (simp add: find_opportunities_checks [OF assms] checks_for_strategy)
qed

theorem strategy_assignment_witness:
  "price_to_beat pd_sample = Some 96000
   \<and> distinct (map strike (markets kd_sample))
   \<and> km_low \<in> set (select_nearby_markets (sort_key strike (markets kd_sample)) 96000 4)
   \<and> spec_strategy 96000 (2 / 5) (7 / 20) km_low
        (filter (\<lambda>c. ac_kalshi_strike c = strike km_low)
           (fst (find_opportunities ae_default pd_sample kd_sample)))
   \<and> map (\<lambda>c. (ac_kalshi_strike c, ac_poly_leg c, ac_kalshi_leg c, ac_poly_cost c, ac_kalshi_cost c))
        (fst (find_opportunities ae_default pd_sample kd_sample))
      = [(95500, ''Down'', ''Yes'', 7 / 20, 55 / 100),
         (96000, ''Down'', ''Yes'', 7 / 20, 50 / 100),
         (96000, ''Up'', ''No'', 2 / 5, 52 / 100),
         (97000, ''Up'', ''No'', 2 / 5, 72 / 100)]"
proof -
  have h: "price_to_beat pd_sample = Some 96000" by (simp add: pd_sample_def)
  have d: "distinct (map strike (markets kd_sample))"
    by (simp add: kd_sample_def km_low_def km_equal_def km_high_def)
  have m: "km_low \<in> set (select_nearby_markets (sort_key strike (markets kd_sample)) 96000 4)"
    by (simp add: sample_sorted sample_selected)
  have p: "py_get (prices pd_sample) ''Up'' 0 = 2 / 5" "py_get (prices pd_sample) ''Down'' 0 = 7 / 20"
    by (simp_all add: pd_sample_def py_get_def)
  from strategy_assignment [OF h, of ae_default kd_sample] d m
  have "spec_strategy 96000 (2 / 5) (7 / 20) km_low
          (filter (\<lambda>c. ac_kalshi_strike c = strike km_low)
             (fst (find_opportunities ae_default pd_sample kd_sample)))"
    unfolding p by blast
  with h d m sample_checks show ?thesis by blast
qed

text \<open>
  Claim C9. With the reference strike \<open>k\<close> present, the detector returns at most
  \<open>2 * (2 * 4 + 1) = 18\<close> checks. For a nonempty market list it scans exactly the
  markets of the sorted list at the indices from \<open>i - 4\<close> (not below zero) up to
  \<open>i + 4\<close> (not beyond the last), where \<open>i\<close> is the index of the strike closest to
  \<open>k\<close>, the lowest such index on a tie, and the checks are those of these markets.
\<close>

theorem neighborhood_bound:
  assumes "price_to_beat pd = Some k"
  shows "length (fst (find_opportunities ae pd kd)) \<le> 18
         \<and> (markets kd \<noteq> [] \<longrightarrow>
              (\<exists>i. closest_index (sort_key strike (markets kd)) k i
                 \<and> select_nearby_markets (sort_key strike (markets kd)) k 4
                     = map (nth (sort_key strike (markets kd)))
                         [i - 4 ..< min (length (markets kd)) (i + 5)]
                 \<and> fst (find_opportunities ae pd kd)
                     = concat (map (checks_for ae k (py_get (prices pd) ''Up'' 0)
                                      (py_get (prices pd) ''Down'' 0))
                                 (select_nearby_markets (sort_key strike (markets kd)) k 4))))"
proof (intro conjI impI)
  let ?sel = "select_nearby_markets (sort_key strike (markets kd)) k 4"
  have "length (fst (find_opportunities ae pd kd)) \<le> 2 * length ?sel"
    unfolding find_opportunities_checks [OF assms]
    by (rule length_concat_bound) (rule checks_for_length)
  also have "\<dots> \<le> 2 * 9" using select_nearby_length [of "sort_key strike (markets kd)" k] by simp
  finally show "length (fst (find_opportunities ae pd kd)) \<le> 18" by simp
next
  let ?ms = "sort_key strike (markets kd)"
  assume "markets kd \<noteq> []"
  then have ne: "?ms \<noteq> []" by (metis length_sort list.size(3) length_0_conv)
  from closest_loop_closest [OF ne, of k] select_nearby_window [OF ne, of k]
    find_opportunities_checks [OF assms, of ae kd]
  show "\<exists>i. closest_index ?ms k i
          \<and> select_nearby_markets ?ms k 4 = map (nth ?ms) [i - 4 ..< min (length (markets kd)) (i + 5)]
          \<and> fst (find_opportunities ae pd kd)
              = concat (map (checks_for ae k (py_get (prices pd) ''Up'' 0)
                               (py_get (prices pd) ''Down'' 0))
                          (select_nearby_markets ?ms k 4))"
    by (intro exI [of _ "closest_loop ?ms k 0 None 0"]) simp
qed

theorem neighborhood_bound_witness:
  "price_to_beat pd_sample = Some 96000
   \<and> length (fst (find_opportunities ae_default pd_sample kd_sample)) \<le> 18
   \<and> length (fst (find_opportunities ae_default pd_sample kd_sample)) = 4"
proof -
  have h: "price_to_beat pd_sample = Some 96000" by (simp add: pd_sample_def)
  have "length (map (\<lambda>c. (ac_kalshi_strike c, ac_poly_leg c, ac_kalshi_leg c, ac_poly_cost c,
                            ac_kalshi_cost c))
                  (fst (find_opportunities ae_default pd_sample kd_sample))) = 4"
    unfolding sample_checks by simp
  then have "length (fst (find_opportunities ae_default pd_sample kd_sample)) = 4" by simp
  with neighborhood_bound [OF h, of ae_default kd_sample] h show ?thesis by blast
qed

section \<open>Properties of the order book\<close>

subsection \<open>Rounding to binary64\<close>


lemma f64_round_zero: "f64_round 0 = 0"
  by (simp add: f64_round_def)


lemma f64_round_eval:
  assumes "x \<noteq> 0" and "2 powi e \<le> \<bar>x\<bar>" and "\<bar>x\<bar> < 2 powi (e + 1)"
  shows "f64_round x = real_of_int (round_half_even (x / 2 powi (e - 52))) * 2 powi (e - 52)"
proof -
  have a: "(2 :: real) powr real_of_int e = 2 powi e"
    and b: "(2 :: real) powr (real_of_int e + 1) = 2 powi (e + 1)"
    using powr_real_of_int' [of 2 e] powr_real_of_int' [of 2 "e + 1"] by simp_all
  have "\<lfloor>log 2 \<bar>x\<bar>\<rfloor> = e"
    using assms floor_log_eq_powr_iff [of "\<bar>x\<bar>" 2 e] by (simp add: a b)
  with assms(1) show ?thesis by (simp add: f64_round_def Let_def)
qed




subsection \<open>The walk\<close>





subsection \<open>The books, evaluated\<close>

lemma f64_round_eval_scaled:
  assumes "x \<noteq> 0" and "2 ^ 52 \<le> \<bar>x\<bar> * 2 ^ n" and "\<bar>x\<bar> * 2 ^ n < 2 ^ 53"
  shows "f64_round x = real_of_int (round_half_even (x * 2 ^ n)) / 2 ^ n"
proof -
  have q: "(2 :: real) powi (- int n) = 1 / 2 ^ n"
    by (simp add: power_int_minus field_simps)
  have lo: "(2 :: real) powi (52 - int n) = 2 ^ 52 / 2 ^ n"
    by (simp add: power_int_diff)
  have hi: "(2 :: real) powi (52 - int n + 1) = 2 ^ 53 / 2 ^ n"
  proof -
    have "(2 :: real) powi (52 - int n + 1) = 2 powi (53 - int n)" by (simp add: algebra_simps)
    also have "\<dots> = 2 ^ 53 / 2 ^ n" by (simp add: power_int_diff)
    finally show ?thesis .
  qed
  have a: "2 powi (52 - int n) \<le> \<bar>x\<bar>"
    unfolding lo using assms(2) by (simp add: field_simps)
  have b: "\<bar>x\<bar> < 2 powi (52 - int n + 1)"
    unfolding hi using assms(3) by (simp add: field_simps)
  from f64_round_eval [OF assms(1) a b] show ?thesis by (simp add: q)
qed






lemma round_price: "f64_round (3 / 100) = price_3_cents"
  using f64_round_eval_scaled [of "3 / 100" 58]
  by (simp add: price_3_cents_def round_half_even_def)


lemma zero_price_raises: "fillable_amount ''BUY'' 1 10 book_zero = Inl ZeroDivisionError"
proof -
  have "f64_round 10 = 10"
    using f64_round_eval_scaled [of 10 49] by (simp add: round_half_even_def)
  then show ?thesis
    by (simp add: fillable_amount_def book_zero_def OrderBook_init_def Let_def)
qed




section \<open>Properties of the order engine\<close>

lemma live_engine_preflight: "preflight_check opp_sample live_engine = (True, None)"
  by (simp add: preflight_check_def opp_sample_def live_engine_def OrderEngine_init_def
      resolve_settings_def default_settings_def PositionTracker_init_def
      get_total_exposure_def Let_def)

lemma live_engine_not_dry: "\<not> DRY_RUN (oe_settings live_engine)"
  by (simp add: live_engine_def OrderEngine_init_def resolve_settings_def)

text \<open>
  Claim C1, as amended. Let the preflight pass, dry-run be off, leg 1 answer without an
  error and leg 2 answer with one. Then \<open>execute_arbitrage\<close> records no position and
  returns the leg-1 result, and: when the leg-1 result is absent or empty there is nothing
  to unwind, no cancel is sent and the status is \<open>UNWOUND\<close>; when the leg-1 result is
  not empty and holds an order id (a truthy \<^verbatim>\<open>order.order_id\<close>), exactly that order
  is cancelled after the two placements, and the status is \<open>UNWOUND\<close> when the cancel
  answers without an error and \<open>LEG2_FAILED\<close> when it answers with one; when the
  leg-1 result is not empty and holds no order id, no cancel is sent and the status is
  \<open>LEG2_FAILED\<close>. An error is an error string that is not empty.
\<close>

theorem unwind_policy:
  assumes "fst (preflight_check opp eng)" and "\<not> DRY_RUN (oe_settings eng)"
    and "kalshi_place_order env (kalshi_leg_order opp) = (leg1, err1)" and "\<not> err_truthy err1"
    and "poly_place_order env (poly_leg_order opp) = (leg2, err2)" and "err_truthy err2"
  shows "case execute_arbitrage now env opp eng of (res, eng', calls) \<Rightarrow>
           eng' = eng \<and> er_leg1_result res = leg1
           \<and> (case leg1 of
                 None \<Rightarrow> er_status res = UNWOUND
                          \<and> calls = [KalshiPlace (kalshi_leg_order opp), PolyPlace (poly_leg_order opp)]
               | Some d \<Rightarrow>
                   if d = [] then
                     er_status res = UNWOUND
                     \<and> calls = [KalshiPlace (kalshi_leg_order opp), PolyPlace (poly_leg_order opp)]
                   else if \<not> truthy (extract_order_id d) then
                     er_status res = LEG2_FAILED
                     \<and> calls = [KalshiPlace (kalshi_leg_order opp), PolyPlace (poly_leg_order opp)]
                   else
                     calls = [KalshiPlace (kalshi_leg_order opp), PolyPlace (poly_leg_order opp),
                              KalshiCancel (extract_order_id d)]
                     \<and> er_status res =
                         (if err_truthy (snd (kalshi_cancel_order env (extract_order_id d)))
                          then LEG2_FAILED else UNWOUND))"
  using assms
  by (auto simp: execute_arbitrage_def execute_kalshi_leg_def execute_poly_leg_def
      attempt_unwind_kalshi_def dict_truthy_def Let_def
      split: prod.splits option.splits if_splits)

theorem unwind_policy_witness:
  "fst (preflight_check opp_sample live_engine)
   \<and> \<not> DRY_RUN (oe_settings live_engine)
   \<and> \<not> err_truthy (snd (kalshi_place_order venues_unwind (kalshi_leg_order opp_sample)))
   \<and> err_truthy (snd (poly_place_order venues_unwind (poly_leg_order opp_sample)))
   \<and> er_status (fst (execute_arbitrage 0 venues_unwind opp_sample live_engine)) = UNWOUND
   \<and> snd (snd (execute_arbitrage 0 venues_unwind opp_sample live_engine))
       = [KalshiPlace (kalshi_leg_order opp_sample), PolyPlace (poly_leg_order opp_sample),
          KalshiCancel (JStr ''ord-123'')]"
proof -
  let ?leg1 = "Some [(''order'', JDict [(''order_id'', JStr ''ord-123''), (''status'', JStr ''filled'')])]"
  have h: "fst (preflight_check opp_sample live_engine)" "\<not> DRY_RUN (oe_settings live_engine)"
    "kalshi_place_order venues_unwind (kalshi_leg_order opp_sample) = (?leg1, None)"
    "\<not> err_truthy None"
    "poly_place_order venues_unwind (poly_leg_order opp_sample) = (None, Some ''Gas too high'')"
    "err_truthy (Some ''Gas too high'')"
    by (simp_all add: live_engine_preflight live_engine_not_dry venues_unwind_def err_truthy_def)
  have oid: "extract_order_id [(''order'', JDict [(''order_id'', JStr ''ord-123''), (''status'', JStr ''filled'')])]
             = JStr ''ord-123''"
    by (simp add: extract_order_id_def py_get_def)
  have c: "\<not> err_truthy (snd (kalshi_cancel_order venues_unwind (JStr ''ord-123'')))"
    by (simp add: venues_unwind_def err_truthy_def)
  from unwind_policy [OF h, of 0] oid c h show ?thesis
    by (auto split: prod.splits)
qed

text \<open>
  The claim as it was stated treats a missing order id as \<open>UNWOUND\<close>. A leg-1 answer
  \<^verbatim>\<open>{"order": {"status": "filled"}}\<close> has no order id, and the engine answers
  \<open>LEG2_FAILED\<close>: it cannot unwind an order it cannot name.
\<close>

theorem unwind_no_order_id_counterexample:
  "fst (preflight_check opp_sample live_engine)
   \<and> \<not> DRY_RUN (oe_settings live_engine)
   \<and> \<not> err_truthy (snd (kalshi_place_order venues_no_id (kalshi_leg_order opp_sample)))
   \<and> err_truthy (snd (poly_place_order venues_no_id (poly_leg_order opp_sample)))
   \<and> extract_order_id [(''order'', JDict [(''status'', JStr ''filled'')])] = JNone
   \<and> er_leg1_result (fst (execute_arbitrage 0 venues_no_id opp_sample live_engine))
       = Some [(''order'', JDict [(''status'', JStr ''filled'')])]
   \<and> er_status (fst (execute_arbitrage 0 venues_no_id opp_sample live_engine)) = LEG2_FAILED
   \<and> er_status (fst (execute_arbitrage 0 venues_no_id opp_sample live_engine)) \<noteq> UNWOUND"
  by (simp add: live_engine_preflight live_engine_not_dry execute_arbitrage_def
      execute_kalshi_leg_def execute_poly_leg_def attempt_unwind_kalshi_def dict_truthy_def
      err_truthy_def extract_order_id_def py_get_def venues_no_id_def Let_def)

end
